theory Spec2Isabelle
  imports Complex_Main "HOL-Library.Sublist" "HOL-Library.AList"
begin

section \<open>Conventions of the embedding\<close>

text \<open>
  The theory embeds the data model (\<^verbatim>\<open>models/challan.py\<close>), the validation engine
  (\<^verbatim>\<open>validation/validator.py\<close>), the post-processing of the text extractor
  (\<^verbatim>\<open>extraction/text_extractor.py\<close>) and the merge, the record builder and the error
  handling of the extraction pipeline (\<^verbatim>\<open>extraction/pipeline.py\<close>).

  \<^item> A Python \<^verbatim>\<open>str\<close> is a \<^typ>\<open>string\<close>; one \<^typ>\<open>char\<close> stands for one character.
  \<^item> A Python \<^verbatim>\<open>float\<close> that holds an amount is an IEEE double, a \<open>pyfloat\<close>: a finite
    value, the negative zero, an infinity or a NaN. Sums and differences of amounts are
    rounded and comparisons of amounts are those of IEEE 754. The confidences of the
    extractors and the completeness of a field map are of type \<^typ>\<open>real\<close>.
  \<^item> \<^verbatim>\<open>Optional[T]\<close> is \<^typ>\<open>'a option\<close>; a \<^verbatim>\<open>dict\<close> is an association list in
    insertion order.
  \<^item> A method that mutates \<^verbatim>\<open>self\<close>, the record or the result returns the updated
    objects.
  \<^item> Calls into libraries that are not part of the repository (\<^verbatim>\<open>re\<close>,
    \<^verbatim>\<open>hashlib\<close>, \<^verbatim>\<open>float()\<close>, \<^verbatim>\<open>datetime.strptime\<close>, the default string form
    of a float, the text of a validation error of \<^verbatim>\<open>pydantic\<close>) and the rounding of a real
    number to a double are fields of the record \<open>pylib\<close>, passed to every function that
    calls them; the system clock (\<^verbatim>\<open>date.today()\<close>, the time that \<^verbatim>\<open>process\<close> measures
    with \<^verbatim>\<open>time.time()\<close>) is a parameter as well. Logging is left out.
  \<^item> Names are those of the source without the leading underscore. Where Isabelle reserves a
    name or it is taken, it is changed: \<^verbatim>\<open>notes\<close> is \<open>notes_text\<close>, the \<^verbatim>\<open>value\<close> of a
    field confidence is \<open>fc_value\<close>, the \<^verbatim>\<open>record\<close> and the \<^verbatim>\<open>extraction_method\<close> of an
    extraction result are \<open>er_record\<close> and \<open>er_extraction_method\<close>, the \<^verbatim>\<open>total\<close> of a
    tax breakup is \<open>TaxBreakup_total\<close>, the \<^verbatim>\<open>parse_date\<close> inside \<^verbatim>\<open>_build_record\<close> is
    \<open>build_parse_date\<close>, and the dictionary \<^verbatim>\<open>fields\<close> is \<open>fs\<close>.
\<close>

section \<open>Strings and numbers as Python prints them\<close>

definition digit_char :: "nat \<Rightarrow> char" where
  "digit_char n = char_of (48 + n)"

fun str_nat :: "nat \<Rightarrow> string" where
  "str_nat n = (if n < 10 then [digit_char n] else str_nat (n div 10) @ [digit_char (n mod 10)])"

declare str_nat.simps [simp del]

definition str_int :: "int \<Rightarrow> string" where
  "str_int i = (if i < 0 then CHR ''-'' # str_nat (nat (- i)) else str_nat (nat i))"

text \<open>\<^verbatim>\<open>"%0<w>d"\<close> for a natural number: zero padding on the left up to width \<open>w\<close>.\<close>

definition zero_pad :: "nat \<Rightarrow> nat \<Rightarrow> string" where
  "zero_pad w n = replicate (w - length (str_nat n)) CHR ''0'' @ str_nat n"

text \<open>Rounding to the nearest integer, a tie going to the even neighbour.\<close>

definition round_half_even :: "real \<Rightarrow> int" where
  "round_half_even x =
     (let f = \<lfloor>x\<rfloor>; d = x - of_int f
      in if d < 1 / 2 then f
         else if 1 / 2 < d then f + 1
         else if even f then f else f + 1)"

text \<open>The format specification \<^verbatim>\<open>:.2f\<close> of an f-string.\<close>

definition fmt_2f :: "real \<Rightarrow> string" where
  "fmt_2f x =
     (let n = nat (round_half_even (\<bar>x\<bar> * 100))
      in (if x < 0 then ''-'' else '''') @ str_nat (n div 100) @ ''.'' @ zero_pad 2 (n mod 100))"

text \<open>\<^verbatim>\<open>sep.join(parts)\<close>.\<close>

fun join :: "string \<Rightarrow> string list \<Rightarrow> string" where
  "join sep [] = []"
| "join sep [x] = x"
| "join sep (x # y # ys) = x @ sep @ join sep (y # ys)"

text \<open>\<^verbatim>\<open>str.title()\<close> on ASCII text: the first letter of every run of letters in upper
  case, the other letters in lower case.\<close>

definition is_upper :: "char \<Rightarrow> bool" where
  "is_upper c = (65 \<le> (of_char c :: nat) \<and> (of_char c :: nat) \<le> 90)"

definition is_lower :: "char \<Rightarrow> bool" where
  "is_lower c = (97 \<le> (of_char c :: nat) \<and> (of_char c :: nat) \<le> 122)"

definition to_upper :: "char \<Rightarrow> char" where
  "to_upper c = (if is_lower c then char_of ((of_char c :: nat) - 32) else c)"

definition to_lower :: "char \<Rightarrow> char" where
  "to_lower c = (if is_upper c then char_of ((of_char c :: nat) + 32) else c)"

fun title_from :: "bool \<Rightarrow> string \<Rightarrow> string" where
  "title_from prev [] = []"
| "title_from prev (c # cs) =
     (if is_upper c \<or> is_lower c
      then (if prev then to_lower c else to_upper c) # title_from True cs
      else c # title_from False cs)"

definition title :: "string \<Rightarrow> string" where
  "title s = title_from False s"

text \<open>\<^verbatim>\<open>s.replace(old, new)\<close> for a single character \<open>old\<close>.\<close>

definition replace_char :: "char \<Rightarrow> char \<Rightarrow> string \<Rightarrow> string" where
  "replace_char old new s = map (\<lambda>c. if c = old then new else c) s"

text \<open>\<^verbatim>\<open>s.replace(old, new)\<close> for a non-empty \<open>old\<close>, from left to right.\<close>

function replace_str :: "string \<Rightarrow> string \<Rightarrow> string \<Rightarrow> string" where
  "replace_str old new [] = []"
| "replace_str old new (c # cs) =
     (if old \<noteq> [] \<and> prefix old (c # cs)
      then new @ replace_str old new (drop (length old) (c # cs))
      else c # replace_str old new cs)"
  by pat_completeness auto
termination
  by (relation "measure (\<lambda>(old, new, s). length s)") auto

text \<open>The characters for which \<^verbatim>\<open>str.isspace\<close> holds, by code point; the regular
  expression class for whitespace matches the same characters.\<close>

definition is_space :: "char \<Rightarrow> bool" where
  "is_space c = ((of_char c :: nat) \<in> {9, 10, 11, 12, 13, 28, 29, 30, 31, 32, 133, 160})"

text \<open>\<^verbatim>\<open>s.strip()\<close>, \<^verbatim>\<open>s.split()\<close> and \<^verbatim>\<open>s.upper()\<close> (letters a to z).\<close>

definition strip :: "string \<Rightarrow> string" where
  "strip s = rev (dropWhile is_space (rev (dropWhile is_space s)))"

fun split_from :: "string \<Rightarrow> string \<Rightarrow> string list" where
  "split_from w [] = (if w = [] then [] else [rev w])"
| "split_from w (c # cs) =
     (if is_space c then (if w = [] then split_from [] cs else rev w # split_from [] cs)
      else split_from (c # w) cs)"

definition split_ws :: "string \<Rightarrow> string list" where
  "split_ws s = split_from [] s"

definition upper :: "string \<Rightarrow> string" where
  "upper s = map to_upper s"

section \<open>Calendar dates\<close>

text \<open>\<^verbatim>\<open>datetime.date\<close>: ordered by (year, month, day); the difference of two dates
  is the difference of their proleptic Gregorian ordinals.\<close>

datatype date = Date (year: nat) (month: nat) (day: nat)

definition is_leap :: "nat \<Rightarrow> bool" where
  "is_leap y = (y mod 4 = 0 \<and> (y mod 100 \<noteq> 0 \<or> y mod 400 = 0))"

definition days_before_year :: "nat \<Rightarrow> int" where
  "days_before_year y =
     (let p = int y - 1 in p * 365 + p div 4 - p div 100 + p div 400)"

definition days_in_month :: "nat \<Rightarrow> nat \<Rightarrow> int" where
  "days_in_month y m =
     (if m = 2 then (if is_leap y then 29 else 28)
      else if m = 4 \<or> m = 6 \<or> m = 9 \<or> m = 11 then 30 else 31)"

definition days_before_month :: "nat \<Rightarrow> nat \<Rightarrow> int" where
  "days_before_month y m = sum_list (map (days_in_month y) [1 ..< m])"

definition toordinal :: "date \<Rightarrow> int" where
  "toordinal d = days_before_year (year d) + days_before_month (year d) (month d) + int (day d)"

definition date_less :: "date \<Rightarrow> date \<Rightarrow> bool" where
  "date_less a b =
     (year a < year b \<or> (year a = year b \<and>
        (month a < month b \<or> (month a = month b \<and> day a < day b))))"

definition days_between :: "date \<Rightarrow> date \<Rightarrow> int" where
  "days_between later earlier = toordinal later - toordinal earlier"

definition isoformat :: "date \<Rightarrow> string" where
  "isoformat d = zero_pad 4 (year d) @ ''-'' @ zero_pad 2 (month d) @ ''-'' @ zero_pad 2 (day d)"

section \<open>Floats\<close>

text \<open>An IEEE double: \<open>Fin x\<close> is the finite double of value \<open>x\<close>, with \<open>Fin 0\<close> the
  positive zero; \<open>NegZero\<close> is \<^verbatim>\<open>-0.0\<close>. Not every real number is the value of a double; the
  functions below are defined on every \<open>Fin x\<close>, and what is proved of them holds for the
  doubles among them.\<close>

datatype pyfloat = Fin real | NegZero | PosInf | NegInf | NaN

text \<open>The value of a finite float.\<close>

fun float_val :: "pyfloat \<Rightarrow> real" where
  "float_val (Fin x) = x"
| "float_val _ = 0"

text \<open>\<^verbatim>\<open>x < y\<close> and \<^verbatim>\<open>x == y\<close>: a comparison with a NaN is false, the two zeros are
  equal.\<close>

fun float_lt :: "pyfloat \<Rightarrow> pyfloat \<Rightarrow> bool" where
  "float_lt NaN y = False"
| "float_lt x NaN = False"
| "float_lt PosInf y = False"
| "float_lt x PosInf = True"
| "float_lt x NegInf = False"
| "float_lt NegInf y = True"
| "float_lt x y = (float_val x < float_val y)"

fun float_eq :: "pyfloat \<Rightarrow> pyfloat \<Rightarrow> bool" where
  "float_eq NaN y = False"
| "float_eq x NaN = False"
| "float_eq PosInf y = (y = PosInf)"
| "float_eq x PosInf = False"
| "float_eq NegInf y = (y = NegInf)"
| "float_eq x NegInf = False"
| "float_eq x y = (float_val x = float_val y)"

text \<open>\<^verbatim>\<open>-x\<close> and \<^verbatim>\<open>abs(x)\<close> change the sign only.\<close>

fun float_neg :: "pyfloat \<Rightarrow> pyfloat" where
  "float_neg (Fin x) = (if x = 0 then NegZero else Fin (- x))"
| "float_neg NegZero = Fin 0"
| "float_neg PosInf = NegInf"
| "float_neg NegInf = PosInf"
| "float_neg NaN = NaN"

fun float_abs :: "pyfloat \<Rightarrow> pyfloat" where
  "float_abs (Fin x) = Fin \<bar>x\<bar>"
| "float_abs NegZero = Fin 0"
| "float_abs PosInf = PosInf"
| "float_abs NegInf = PosInf"
| "float_abs NaN = NaN"

text \<open>The format specification \<^verbatim>\<open>:.2f\<close> on a float.\<close>

fun float_fmt_2f :: "pyfloat \<Rightarrow> string" where
  "float_fmt_2f (Fin x) = fmt_2f x"
| "float_fmt_2f NegZero = ''-0.00''"
| "float_fmt_2f PosInf = ''inf''"
| "float_fmt_2f NegInf = ''-inf''"
| "float_fmt_2f NaN = ''nan''"

text \<open>The values a field of type \<^verbatim>\<open>Any\<close> takes in the extractors.\<close>

datatype pyval = PNone | PStr string | PFloat pyfloat

definition truthy :: "pyval \<Rightarrow> bool" where
  "truthy v =
     (case v of PNone \<Rightarrow> False | PStr s \<Rightarrow> s \<noteq> [] | PFloat x \<Rightarrow> \<not> float_eq x (Fin 0))"

section \<open>Library calls\<close>

record pylib =
  re_match :: "string \<Rightarrow> string \<Rightarrow> bool"
    \<comment> \<open>\<^verbatim>\<open>re.match(pattern, s)\<close> found a match\<close>
  re_search :: "string \<Rightarrow> string \<Rightarrow> string option"
    \<comment> \<open>group 1 of \<^verbatim>\<open>re.search(pattern, s)\<close>, \<open>None\<close> without a match\<close>
  re_search_im :: "string \<Rightarrow> string \<Rightarrow> string option"
    \<comment> \<open>the same with the flags \<^verbatim>\<open>re.IGNORECASE | re.MULTILINE\<close>\<close>
  sha256_hexdigest :: "string \<Rightarrow> string"
    \<comment> \<open>\<^verbatim>\<open>hashlib.sha256(s.encode()).hexdigest()\<close>\<close>
  float_str :: "pyfloat \<Rightarrow> string"
    \<comment> \<open>\<^verbatim>\<open>str(x)\<close> of a float\<close>
  float_of_str :: "string \<Rightarrow> pyfloat option"
    \<comment> \<open>\<^verbatim>\<open>float(s)\<close>, \<open>None\<close> where it raises ValueError\<close>
  strptime :: "string \<Rightarrow> string \<Rightarrow> date option"
    \<comment> \<open>the date of \<^verbatim>\<open>datetime.strptime(s, fmt)\<close>, \<open>None\<close> where it raises ValueError\<close>
  fromisoformat :: "string \<Rightarrow> date option"
    \<comment> \<open>the date of \<^verbatim>\<open>datetime.fromisoformat(s)\<close>, \<open>None\<close> where it raises ValueError\<close>
  float_round :: "real \<Rightarrow> pyfloat"
    \<comment> \<open>the double nearest to a real number other than 0, a tie going to the even mantissa,
        and an infinity beyond the largest double: the rounding of IEEE 754\<close>
  validation_error_str :: "(string \<times> pyval) list \<Rightarrow> string"
    \<comment> \<open>\<^verbatim>\<open>str(e)\<close> of the \<^verbatim>\<open>ValidationError\<close> that \<^verbatim>\<open>ChallanRecord(...)\<close> raises, given
        the fields that \<^verbatim>\<open>pydantic\<close> rejects and the input of each\<close>

text \<open>\<^verbatim>\<open>x + y\<close>: a NaN as soon as one operand is a NaN or the operands are the two
  infinities; the infinity when one operand is infinite; the negative zero for two negative
  zeros, the positive zero when the exact sum of two finite operands is 0 otherwise; and the
  exact sum, rounded, in every other case. \<^verbatim>\<open>x - y\<close> is \<^verbatim>\<open>x + (-y)\<close>.\<close>

fun float_add :: "pylib \<Rightarrow> pyfloat \<Rightarrow> pyfloat \<Rightarrow> pyfloat" where
  "float_add L NaN y = NaN"
| "float_add L x NaN = NaN"
| "float_add L PosInf NegInf = NaN"
| "float_add L NegInf PosInf = NaN"
| "float_add L PosInf y = PosInf"
| "float_add L x PosInf = PosInf"
| "float_add L NegInf y = NegInf"
| "float_add L x NegInf = NegInf"
| "float_add L NegZero NegZero = NegZero"
| "float_add L x y =
     (if float_val x + float_val y = 0 then Fin 0
      else float_round L (float_val x + float_val y))"

definition float_sub :: "pylib \<Rightarrow> pyfloat \<Rightarrow> pyfloat \<Rightarrow> pyfloat" where
  "float_sub L x y = float_add L x (float_neg y)"

section \<open>Data model (models/challan.py)\<close>

datatype ValidationStatus = OK | FLAG | PENDING

datatype ReviewStatus = PENDING_REVIEW | ACCEPTED | REJECTED | CORRECTED

record FieldConfidence =
  fc_value :: pyval
  confidence :: real
  extraction_method :: string
  raw_text :: "string option"

record TaxBreakup =
  tax_a :: pyfloat
  tax_b :: pyfloat
  tax_c :: pyfloat
  tax_d :: pyfloat
  tax_e :: pyfloat
  tax_f :: pyfloat

text \<open>The property \<^verbatim>\<open>total\<close>: the five additions run from the left, each one rounded.\<close>

definition TaxBreakup_total :: "pylib \<Rightarrow> TaxBreakup \<Rightarrow> pyfloat" where
  "TaxBreakup_total L t =
     float_add L (float_add L (float_add L (float_add L (float_add L
       (tax_a t) (tax_b t)) (tax_c t)) (tax_d t)) (tax_e t)) (tax_f t)"

record ChallanRecord =
  tan :: "string option"
  deductor_name :: "string option"
  assessment_year :: "string option"
  financial_year :: "string option"
  major_head :: "string option"
  minor_head :: "string option"
  nature_of_payment :: "string option"
  total_amount :: "pyfloat option"
  amount_in_words :: "string option"
  cin :: "string option"
  bsr_code :: "string option"
  challan_no :: "string option"
  date_of_deposit :: "date option"
  tender_date :: "date option"
  bank_name :: "string option"
  bank_ref_no :: "string option"
  mode_of_payment :: "string option"
  tax_breakup :: TaxBreakup
  source_file :: string
  row_confidence :: real
  validation_flag :: ValidationStatus
  review_status :: ReviewStatus
  notes_text :: string
  field_confidences :: "(string \<times> FieldConfidence) list"
  record_hash :: "string option"

text \<open>\<^verbatim>\<open>x or ''\<close> for an optional string.\<close>

definition or_empty :: "string option \<Rightarrow> string" where
  "or_empty x = (case x of None \<Rightarrow> [] | Some s \<Rightarrow> s)"

text \<open>\<^verbatim>\<open>not x\<close> for an optional string: \<^verbatim>\<open>None\<close> and the empty string are false.\<close>

definition falsy :: "string option \<Rightarrow> bool" where
  "falsy x = (case x of None \<Rightarrow> True | Some s \<Rightarrow> s = [])"

definition hash_input :: "ChallanRecord \<Rightarrow> string" where
  "hash_input r =
     or_empty (cin r) @ or_empty (challan_no r) @
     (case date_of_deposit r of None \<Rightarrow> [] | Some d \<Rightarrow> isoformat d)"

text \<open>\<^verbatim>\<open>compute_hash\<close> stores the hash on the record and returns it.\<close>

definition compute_hash :: "pylib \<Rightarrow> ChallanRecord \<Rightarrow> string \<times> ChallanRecord" where
  "compute_hash L r =
     (let h = take 16 (sha256_hexdigest L (hash_input r))
      in (h, r\<lparr>record_hash := Some h\<rparr>))"

section \<open>Configuration (config/settings.py)\<close>

record ValidationConfig =
  sum_check_tolerance :: pyfloat
  date_formats :: "string list"
  tan_pattern :: string
  cin_min_length :: int

definition validation_config :: ValidationConfig where
  "validation_config =
     \<lparr>sum_check_tolerance = Fin 1,
      date_formats = [''%d-%b-%Y'', ''%d/%m/%Y'', ''%Y-%m-%d'', ''%d-%m-%Y'', ''%d %b %Y'', ''%d %B %Y''],
      tan_pattern = ''^[A-Z]{4}[0-9]{5}[A-Z]$'',
      cin_min_length = 15\<rparr>"

section \<open>Validator (validation/validator.py)\<close>

record ValidationIssue =
  field :: string
  issue_type :: string
  message :: string
  severity :: string

record ValidationResult =
  record_id :: string
  is_valid :: bool
  issues :: "ValidationIssue list"
  original_values :: "(string \<times> pyfloat) list"
  corrected_values :: "(string \<times> pyfloat) list"

definition has_errors :: "ValidationResult \<Rightarrow> bool" where
  "has_errors result = list_ex (\<lambda>i. severity i = ''error'') (issues result)"

definition has_warnings :: "ValidationResult \<Rightarrow> bool" where
  "has_warnings result = list_ex (\<lambda>i. severity i = ''warning'') (issues result)"

record ChallanValidator =
  config :: ValidationConfig
  seen_hashes :: "string set"

text \<open>\<^verbatim>\<open>ChallanValidator()\<close>: the global configuration and an empty set of hashes.\<close>

definition new_validator :: ChallanValidator where
  "new_validator = \<lparr>config = validation_config, seen_hashes = {}\<rparr>"

definition reset_dedupe_cache :: "ChallanValidator \<Rightarrow> ChallanValidator" where
  "reset_dedupe_cache self = self\<lparr>seen_hashes := {}\<rparr>"

text \<open>\<^verbatim>\<open>result.issues.append(ValidationIssue(...))\<close>.\<close>

definition append_issue :: "ValidationResult \<Rightarrow> ValidationIssue \<Rightarrow> ValidationResult" where
  "append_issue result i = result\<lparr>issues := issues result @ [i]\<rparr>"

definition validate_tan ::
  "pylib \<Rightarrow> ChallanValidator \<Rightarrow> ChallanRecord \<Rightarrow> ValidationResult \<Rightarrow> ValidationResult" where
  "validate_tan L self r result =
     (if falsy (tan r) then
        append_issue result
          \<lparr>field = ''tan'', issue_type = ''missing'', message = ''TAN is missing'',
           severity = ''error''\<rparr>
      else if \<not> re_match L (tan_pattern (config self)) (or_empty (tan r)) then
        append_issue result
          \<lparr>field = ''tan'', issue_type = ''format'',
           message = ''Invalid TAN format: '' @ or_empty (tan r), severity = ''error''\<rparr>
      else result)"

definition validate_cin ::
  "ChallanValidator \<Rightarrow> ChallanRecord \<Rightarrow> ValidationResult \<Rightarrow> ValidationResult" where
  "validate_cin self r result =
     (if falsy (cin r) then
        append_issue result
          \<lparr>field = ''cin'', issue_type = ''missing'', message = ''CIN is missing'',
           severity = ''error''\<rparr>
      else if int (length (or_empty (cin r))) < cin_min_length (config self) then
        append_issue result
          \<lparr>field = ''cin'', issue_type = ''format'',
           message = ''CIN too short: '' @ or_empty (cin r) @ '' (min '' @
                     str_int (cin_min_length (config self)) @ '' chars)'',
           severity = ''warning''\<rparr>
      else result)"

definition validate_amounts ::
  "pylib \<Rightarrow> ChallanRecord \<Rightarrow> ValidationResult \<Rightarrow> ValidationResult" where
  "validate_amounts L r result =
     (case total_amount r of
        None \<Rightarrow>
          append_issue result
            \<lparr>field = ''total_amount'', issue_type = ''missing'',
             message = ''Total amount is missing'', severity = ''error''\<rparr>
      | Some t \<Rightarrow>
          (let result1 =
                 (if float_lt t (Fin 0) then
                    append_issue result
                      \<lparr>field = ''total_amount'', issue_type = ''invalid'',
                       message = ''Negative total amount: '' @ float_str L t,
                       severity = ''error''\<rparr>
                  else result)
           in if float_eq t (Fin 0) then
                append_issue result1
                  \<lparr>field = ''total_amount'', issue_type = ''suspicious'',
                   message = ''Total amount is zero'', severity = ''warning''\<rparr>
              else result1))"

definition sum_mismatch_message :: "pyfloat \<Rightarrow> pyfloat \<Rightarrow> pyfloat \<Rightarrow> string" where
  "sum_mismatch_message tax_sum t difference =
     ''Tax breakup sum ('' @ float_fmt_2f tax_sum @ '') != Total amount ('' @ float_fmt_2f t @
     ''), diff='' @ float_fmt_2f difference"

definition validate_sum_check ::
  "pylib \<Rightarrow> ChallanValidator \<Rightarrow> ChallanRecord \<Rightarrow> ValidationResult \<Rightarrow> ValidationResult" where
  "validate_sum_check L self r result =
     (case total_amount r of
        None \<Rightarrow> result
      | Some t \<Rightarrow>
          (let tax_sum = TaxBreakup_total L (tax_breakup r);
               difference = float_abs (float_sub L tax_sum t)
           in if float_lt (sum_check_tolerance (config self)) difference then
                (append_issue result
                   \<lparr>field = ''tax_breakup'', issue_type = ''sum_mismatch'',
                    message = sum_mismatch_message tax_sum t difference,
                    severity = ''error''\<rparr>)
                \<lparr>original_values :=
                   AList.update ''total_amount'' t
                     (AList.update ''tax_sum'' tax_sum (original_values result))\<rparr>
              else result))"

definition validate_dates ::
  "date \<Rightarrow> ChallanRecord \<Rightarrow> ValidationResult \<Rightarrow> ValidationResult" where
  "validate_dates today r result =
     (case date_of_deposit r of
        None \<Rightarrow>
          append_issue result
            \<lparr>field = ''date_of_deposit'', issue_type = ''missing'',
             message = ''Date of deposit is missing'', severity = ''error''\<rparr>
      | Some deposit_date \<Rightarrow>
          (let result1 =
                 (if date_less today deposit_date then
                    append_issue result
                      \<lparr>field = ''date_of_deposit'', issue_type = ''future_date'',
                       message = ''Date of deposit is in future: '' @ isoformat deposit_date,
                       severity = ''warning''\<rparr>
                  else result)
           in if 3650 < days_between today deposit_date then
                append_issue result1
                  \<lparr>field = ''date_of_deposit'', issue_type = ''old_date'',
                   message = ''Date of deposit is more than 10 years old: '' @
                             isoformat deposit_date,
                   severity = ''warning''\<rparr>
              else result1))"

text \<open>The loop over the dictionary \<^verbatim>\<open>required\<close>, in insertion order.\<close>

fun required_loop :: "(string \<times> string option) list \<Rightarrow> ValidationResult \<Rightarrow> ValidationResult" where
  "required_loop [] result = result"
| "required_loop ((field_name, v) # rest) result =
     required_loop rest
       (if falsy v then
          append_issue result
            \<lparr>field = field_name, issue_type = ''missing'',
             message = title (replace_char CHR ''_'' CHR '' '' field_name) @ '' is missing'',
             severity = ''warning''\<rparr>
        else result)"

definition validate_required_fields :: "ChallanRecord \<Rightarrow> ValidationResult \<Rightarrow> ValidationResult" where
  "validate_required_fields r result =
     required_loop
       [(''challan_no'', challan_no r), (''bsr_code'', bsr_code r),
        (''bank_name'', bank_name r), (''deductor_name'', deductor_name r)]
       result"

definition check_duplicate ::
  "pylib \<Rightarrow> ChallanValidator \<Rightarrow> ChallanRecord \<Rightarrow> ValidationResult \<Rightarrow>
   ChallanValidator \<times> ChallanRecord \<times> ValidationResult" where
  "check_duplicate L self r result =
     (let (h, r1) = compute_hash L r
      in if h \<in> seen_hashes self then
           (self, r1,
            append_issue result
              \<lparr>field = ''record'', issue_type = ''duplicate'',
               message = ''Duplicate record detected (hash: '' @ h @ '')'',
               severity = ''error''\<rparr>)
         else (self\<lparr>seen_hashes := insert h (seen_hashes self)\<rparr>, r1, result))"

text \<open>\<^verbatim>\<open>record.record_hash or record.cin or "unknown"\<close>.\<close>

definition initial_record_id :: "ChallanRecord \<Rightarrow> string" where
  "initial_record_id r =
     (if \<not> falsy (record_hash r) then or_empty (record_hash r)
      else if \<not> falsy (cin r) then or_empty (cin r)
      else ''unknown'')"

definition issues_text :: "ValidationIssue list \<Rightarrow> string" where
  "issues_text xs = join ''; '' (map (\<lambda>i. field i @ '': '' @ message i) xs)"

text \<open>\<^verbatim>\<open>validate\<close> returns the result; the record and the validator it mutated are
  returned with it.\<close>

definition validate ::
  "pylib \<Rightarrow> date \<Rightarrow> ChallanValidator \<Rightarrow> ChallanRecord \<Rightarrow>
   ValidationResult \<times> ChallanRecord \<times> ChallanValidator" where
  "validate L today self r =
     (let result0 = \<lparr>record_id = initial_record_id r, is_valid = True, issues = [],
                     original_values = [], corrected_values = []\<rparr>;
          result1 = validate_tan L self r result0;
          result2 = validate_cin self r result1;
          result3 = validate_amounts L r result2;
          result4 = validate_sum_check L self r result3;
          result5 = validate_dates today r result4;
          result6 = validate_required_fields r result5;
          (self1, r1, result7) = check_duplicate L self r result6;
          (r2, result8) =
             (if has_errors result7
              then (r1\<lparr>validation_flag := FLAG\<rparr>, result7\<lparr>is_valid := False\<rparr>)
              else (r1\<lparr>validation_flag := OK\<rparr>, result7));
          r3 = (if issues result8 \<noteq> []
                then r2\<lparr>notes_text := issues_text (issues result8)\<rparr>
                else r2)
      in (result8, r3, self1))"

text \<open>\<^verbatim>\<open>validate_batch\<close>: the cache is reset, then the records are validated in order.\<close>

fun validate_loop ::
  "pylib \<Rightarrow> date \<Rightarrow> ChallanValidator \<Rightarrow> ChallanRecord list \<Rightarrow>
   ValidationResult list \<times> ChallanRecord list \<times> ChallanValidator" where
  "validate_loop L today self [] = ([], [], self)"
| "validate_loop L today self (r # rs) =
     (let (result, r1, self1) = validate L today self r;
          (results, rs1, self2) = validate_loop L today self1 rs
      in (result # results, r1 # rs1, self2))"

definition validate_batch ::
  "pylib \<Rightarrow> date \<Rightarrow> ChallanValidator \<Rightarrow> ChallanRecord list \<Rightarrow>
   ValidationResult list \<times> ChallanRecord list \<times> ChallanValidator" where
  "validate_batch L today self rs = validate_loop L today (reset_dedupe_cache self) rs"

text \<open>The issues each rule appends to the result, as lists. They serve the proofs: the lemmas
  \<open>issues_validate_tan\<close> to \<open>issues_check_duplicate\<close> below show that every rule appends
  exactly its list.\<close>

definition tan_issues :: "pylib \<Rightarrow> ChallanValidator \<Rightarrow> ChallanRecord \<Rightarrow> ValidationIssue list" where
  "tan_issues L self r =
     (if falsy (tan r) then
        [\<lparr>field = ''tan'', issue_type = ''missing'', message = ''TAN is missing'',
          severity = ''error''\<rparr>]
      else if \<not> re_match L (tan_pattern (config self)) (or_empty (tan r)) then
        [\<lparr>field = ''tan'', issue_type = ''format'',
          message = ''Invalid TAN format: '' @ or_empty (tan r), severity = ''error''\<rparr>]
      else [])"

definition cin_issues :: "ChallanValidator \<Rightarrow> ChallanRecord \<Rightarrow> ValidationIssue list" where
  "cin_issues self r =
     (if falsy (cin r) then
        [\<lparr>field = ''cin'', issue_type = ''missing'', message = ''CIN is missing'',
          severity = ''error''\<rparr>]
      else if int (length (or_empty (cin r))) < cin_min_length (config self) then
        [\<lparr>field = ''cin'', issue_type = ''format'',
          message = ''CIN too short: '' @ or_empty (cin r) @ '' (min '' @
                    str_int (cin_min_length (config self)) @ '' chars)'',
          severity = ''warning''\<rparr>]
      else [])"

definition amount_issues :: "pylib \<Rightarrow> ChallanRecord \<Rightarrow> ValidationIssue list" where
  "amount_issues L r =
     (case total_amount r of
        None \<Rightarrow> [\<lparr>field = ''total_amount'', issue_type = ''missing'',
                  message = ''Total amount is missing'', severity = ''error''\<rparr>]
      | Some t \<Rightarrow>
          (if float_lt t (Fin 0) then
             [\<lparr>field = ''total_amount'', issue_type = ''invalid'',
               message = ''Negative total amount: '' @ float_str L t, severity = ''error''\<rparr>]
           else []) @
          (if float_eq t (Fin 0) then
             [\<lparr>field = ''total_amount'', issue_type = ''suspicious'',
               message = ''Total amount is zero'', severity = ''warning''\<rparr>]
           else []))"

definition sum_check_issues ::
  "pylib \<Rightarrow> ChallanValidator \<Rightarrow> ChallanRecord \<Rightarrow> ValidationIssue list" where
  "sum_check_issues L self r =
     (case total_amount r of
        None \<Rightarrow> []
      | Some t \<Rightarrow>
          (if float_lt (sum_check_tolerance (config self))
                (float_abs (float_sub L (TaxBreakup_total L (tax_breakup r)) t)) then
             [\<lparr>field = ''tax_breakup'', issue_type = ''sum_mismatch'',
               message = sum_mismatch_message (TaxBreakup_total L (tax_breakup r)) t
                           (float_abs (float_sub L (TaxBreakup_total L (tax_breakup r)) t)),
               severity = ''error''\<rparr>]
           else []))"

definition date_issues :: "date \<Rightarrow> ChallanRecord \<Rightarrow> ValidationIssue list" where
  "date_issues today r =
     (case date_of_deposit r of
        None \<Rightarrow> [\<lparr>field = ''date_of_deposit'', issue_type = ''missing'',
                  message = ''Date of deposit is missing'', severity = ''error''\<rparr>]
      | Some d \<Rightarrow>
          (if date_less today d then
             [\<lparr>field = ''date_of_deposit'', issue_type = ''future_date'',
               message = ''Date of deposit is in future: '' @ isoformat d,
               severity = ''warning''\<rparr>]
           else []) @
          (if 3650 < days_between today d then
             [\<lparr>field = ''date_of_deposit'', issue_type = ''old_date'',
               message = ''Date of deposit is more than 10 years old: '' @ isoformat d,
               severity = ''warning''\<rparr>]
           else []))"

definition required_issues :: "ChallanRecord \<Rightarrow> ValidationIssue list" where
  "required_issues r =
     map (\<lambda>kv. \<lparr>field = fst kv, issue_type = ''missing'',
                 message = title (replace_char CHR ''_'' CHR '' '' (fst kv)) @ '' is missing'',
                 severity = ''warning''\<rparr>)
         (filter (\<lambda>kv. falsy (snd kv))
            [(''challan_no'', challan_no r), (''bsr_code'', bsr_code r),
             (''bank_name'', bank_name r), (''deductor_name'', deductor_name r)])"

definition duplicate_issues ::
  "pylib \<Rightarrow> ChallanValidator \<Rightarrow> ChallanRecord \<Rightarrow> ValidationIssue list" where
  "duplicate_issues L self r =
     (if fst (compute_hash L r) \<in> seen_hashes self then
        [\<lparr>field = ''record'', issue_type = ''duplicate'',
          message = ''Duplicate record detected (hash: '' @ fst (compute_hash L r) @ '')'',
          severity = ''error''\<rparr>]
      else [])"


section \<open>Merging field maps (extraction/pipeline.py)\<close>

text \<open>A \<^verbatim>\<open>Dict[str, FieldConfidence]\<close>: the items in insertion order, the keys distinct.
  \<^verbatim>\<open>d[k] = v\<close> is \<^const>\<open>AList.update\<close>: it replaces the value of a key in place and puts
  a new key at the end.\<close>

type_synonym field_map = "(string \<times> FieldConfidence) list"

text \<open>One round of the loop of \<^verbatim>\<open>_merge_fields\<close> over \<^verbatim>\<open>secondary.items()\<close>.\<close>

definition merge_step :: "string \<times> FieldConfidence \<Rightarrow> field_map \<Rightarrow> field_map" where
  "merge_step item merged =
     (let field_name = fst item; sec_field = snd item
      in case map_of merged field_name of
           None \<Rightarrow> AList.update field_name sec_field merged
         | Some pri_field \<Rightarrow>
             if confidence pri_field < confidence sec_field then
               AList.update field_name sec_field merged
             else if confidence sec_field = confidence pri_field then
               (if \<not> truthy (fc_value pri_field) \<and> truthy (fc_value sec_field)
                then AList.update field_name sec_field merged
                else merged)
             else merged)"

definition merge_fields :: "field_map \<Rightarrow> field_map \<Rightarrow> field_map" where
  "merge_fields primary secondary = fold merge_step secondary primary"

section \<open>Text extractor (extraction/text_extractor.py)\<close>

text \<open>The pattern tables. A pattern is only handed to the regular expression library, so its
  text is kept as it is written in the source; \<open>bs\<close> is the backslash and \<open>rupee\<close> stands
  for the rupee sign, which lies outside the characters of \<^typ>\<open>string\<close> and so never occurs
  in the strings the functions below work on.\<close>

definition bs :: string where
  "bs = [CHR 0x5C]"

definition rupee :: string where
  "rupee = [CHR 0xE2, CHR 0x82, CHR 0xB9]"

definition FIELD_PATTERNS :: "(string \<times> string) list" where
  "FIELD_PATTERNS =
     [(''tan'',
        ''TAN'' @ bs @ ''s*:?'' @ bs @ ''s*([A-Z]{4}[0-9]{5}[A-Z])''),
      (''deductor_name'',
        ''Name'' @ bs @ ''s*:?'' @ bs @ ''s*([A-Z][A-Za-z0-9'' @ bs @ ''s&.,()-]+?)(?='' @ bs @ ''n|Assessment|$)''),
      (''assessment_year'',
        ''Assessment'' @ bs @ ''s*Year'' @ bs @ ''s*:?'' @ bs @ ''s*('' @ bs @ ''d{4}-'' @ bs @ ''d{2})''),
      (''financial_year'',
        ''Financial'' @ bs @ ''s*Year'' @ bs @ ''s*:?'' @ bs @ ''s*('' @ bs @ ''d{4}-'' @ bs @ ''d{2})''),
      (''major_head'',
        ''Major'' @ bs @ ''s*Head'' @ bs @ ''s*:?'' @ bs @ ''s*(.+?)(?='' @ bs @ ''n|Minor|$)''),
      (''minor_head'',
        ''Minor'' @ bs @ ''s*Head'' @ bs @ ''s*:?'' @ bs @ ''s*(.+?)(?='' @ bs @ ''n|Nature|$)''),
      (''nature_of_payment'',
        ''Nature'' @ bs @ ''s*of'' @ bs @ ''s*Payment'' @ bs @ ''s*:?'' @ bs @ ''s*('' @ bs @ ''d{2,3}[A-Z]?|'' @ bs @ ''w+)''),
      (''total_amount'',
        ''Amount'' @ bs @ ''s*'' @ bs @ ''(in'' @ bs @ ''s*Rs'' @ bs @ ''.'' @ bs @ '')'' @ bs @ ''s*:?'' @ bs @ ''s*['' @ rupee @ ''Rs.'' @ bs @ ''s]*([0-9,]+(?:'' @ bs @ ''.'' @ bs @ ''d{2})?)''),
      (''amount_in_words'',
        ''Amount'' @ bs @ ''s*'' @ bs @ ''(in'' @ bs @ ''s*words'' @ bs @ '')'' @ bs @ ''s*:?'' @ bs @ ''s*(.+?)(?='' @ bs @ ''n|CIN|$)''),
      (''cin'',
        ''CIN'' @ bs @ ''s*:?'' @ bs @ ''s*([A-Z0-9]+)''),
      (''bsr_code'',
        ''BSR'' @ bs @ ''s*[Cc]ode'' @ bs @ ''s*:?'' @ bs @ ''s*('' @ bs @ ''d+)''),
      (''challan_no'',
        ''Challan'' @ bs @ ''s*No'' @ bs @ ''.?'' @ bs @ ''s*:?'' @ bs @ ''s*('' @ bs @ ''d+)''),
      (''date_of_deposit'',
        ''Date'' @ bs @ ''s*of'' @ bs @ ''s*Deposit'' @ bs @ ''s*:?'' @ bs @ ''s*('' @ bs @ ''d{2}[-/][A-Za-z]{3}[-/]'' @ bs @ ''d{4}|'' @ bs @ ''d{2}[-/]'' @ bs @ ''d{2}[-/]'' @ bs @ ''d{4})''),
      (''tender_date'',
        ''Tender'' @ bs @ ''s*Date'' @ bs @ ''s*:?'' @ bs @ ''s*('' @ bs @ ''d{2}[-/][A-Za-z]{3}[-/]'' @ bs @ ''d{4}|'' @ bs @ ''d{2}[-/]'' @ bs @ ''d{2}[-/]'' @ bs @ ''d{4})''),
      (''bank_name'',
        ''Bank'' @ bs @ ''s*Name'' @ bs @ ''s*:?'' @ bs @ ''s*([A-Za-z'' @ bs @ ''s]+Bank)''),
      (''bank_ref_no'',
        ''Bank'' @ bs @ ''s*Reference'' @ bs @ ''s*Number'' @ bs @ ''s*:?'' @ bs @ ''s*([A-Z0-9]+)''),
      (''mode_of_payment'',
        ''Mode'' @ bs @ ''s*of'' @ bs @ ''s*Payment'' @ bs @ ''s*:?'' @ bs @ ''s*([A-Za-z'' @ bs @ ''s]+)'')]"

definition TAX_PATTERNS :: "(string \<times> string) list" where
  "TAX_PATTERNS =
     [(''tax_a'',
        ''A'' @ bs @ ''s+Tax'' @ bs @ ''s+['' @ rupee @ ''Rs.'' @ bs @ ''s]*([0-9,]+(?:'' @ bs @ ''.'' @ bs @ ''d{2})?)''),
      (''tax_b'',
        ''B'' @ bs @ ''s+Surcharge'' @ bs @ ''s+['' @ rupee @ ''Rs.'' @ bs @ ''s]*([0-9,]+(?:'' @ bs @ ''.'' @ bs @ ''d{2})?)''),
      (''tax_c'',
        ''C'' @ bs @ ''s+Cess'' @ bs @ ''s+['' @ rupee @ ''Rs.'' @ bs @ ''s]*([0-9,]+(?:'' @ bs @ ''.'' @ bs @ ''d{2})?)''),
      (''tax_d'',
        ''D'' @ bs @ ''s+Interest'' @ bs @ ''s+['' @ rupee @ ''Rs.'' @ bs @ ''s]*([0-9,]+(?:'' @ bs @ ''.'' @ bs @ ''d{2})?)''),
      (''tax_e'',
        ''E'' @ bs @ ''s+Penalty'' @ bs @ ''s+['' @ rupee @ ''Rs.'' @ bs @ ''s]*([0-9,]+(?:'' @ bs @ ''.'' @ bs @ ''d{2})?)''),
      (''tax_f'',
        ''F'' @ bs @ ''s+Fee'' @ bs @ ''s+under'' @ bs @ ''s+section'' @ bs @ ''s+234E'' @ bs @ ''s+['' @ rupee @ ''Rs.'' @ bs @ ''s]*([0-9,]+(?:'' @ bs @ ''.'' @ bs @ ''d{2})?)'')]"

text \<open>\<^verbatim>\<open>_parse_amount\<close>: the substitution deletes the rupee sign, \<^verbatim>\<open>R\<close>, \<^verbatim>\<open>s\<close>, the
  full stop, the comma and whitespace.\<close>

definition parse_amount :: "pylib \<Rightarrow> string \<Rightarrow> pyfloat option" where
  "parse_amount L v =
     (if v = [] then None
      else float_of_str L
             (filter (\<lambda>c. \<not> (c = CHR ''R'' \<or> c = CHR ''s'' \<or> c = CHR ''.'' \<or> c = CHR '','' \<or>
                            is_space c)) v))"

text \<open>\<^verbatim>\<open>_parse_date\<close>: the first format that parses decides; the date is printed with
  \<^verbatim>\<open>strftime("%Y-%m-%d")\<close>, which is \<^const>\<open>isoformat\<close> from the year 1000 on.\<close>

fun first_format :: "pylib \<Rightarrow> string \<Rightarrow> string list \<Rightarrow> date option" where
  "first_format L v [] = None"
| "first_format L v (fmt # fmts) =
     (case strptime L v fmt of Some d \<Rightarrow> Some d | None \<Rightarrow> first_format L v fmts)"

definition parse_date :: "pylib \<Rightarrow> ValidationConfig \<Rightarrow> string \<Rightarrow> string option" where
  "parse_date L cfg v =
     (if v = [] then None
      else map_option isoformat (first_format L v (date_formats cfg)))"

text \<open>\<^verbatim>\<open>_clean_value\<close>.\<close>

definition clean_value :: "pylib \<Rightarrow> ValidationConfig \<Rightarrow> string \<Rightarrow> string \<Rightarrow> pyval" where
  "clean_value L cfg field_name v0 =
     (if v0 = [] then PNone
      else let v = strip v0 in
        if field_name = ''total_amount'' then
          (case parse_amount L v of None \<Rightarrow> PNone | Some x \<Rightarrow> PFloat x)
        else if field_name = ''date_of_deposit'' \<or> field_name = ''tender_date'' then
          (case parse_date L cfg v of None \<Rightarrow> PNone | Some s \<Rightarrow> PStr s)
        else if field_name = ''tan'' then PStr (strip (upper v))
        else if field_name = ''cin'' then PStr (strip (upper v))
        else if field_name = ''nature_of_payment'' then
          (case re_search L (''('' @ bs @ ''d{2,3}[A-Z]?)'') v of
             Some g \<Rightarrow> PStr g | None \<Rightarrow> PStr v)
        else if field_name = ''deductor_name'' then PStr (join '' '' (split_ws v))
        else if field_name = ''major_head'' \<or> field_name = ''minor_head'' then
          PStr (join '' '' (split_ws v))
        else PStr v)"

text \<open>\<^verbatim>\<open>str(v)\<close>.\<close>

definition py_str :: "pylib \<Rightarrow> pyval \<Rightarrow> string" where
  "py_str L v = (case v of PNone \<Rightarrow> ''None'' | PStr s \<Rightarrow> s | PFloat x \<Rightarrow> float_str L x)"

text \<open>\<^verbatim>\<open>_calculate_field_confidence\<close>; the raw value is not used.\<close>

definition calculate_field_confidence ::
  "pylib \<Rightarrow> ValidationConfig \<Rightarrow> string \<Rightarrow> string \<Rightarrow> pyval \<Rightarrow> real" where
  "calculate_field_confidence L cfg field_name raw_value cleaned_value =
     (if cleaned_value = PNone then 3 / 10
      else if field_name = ''tan'' then
        (if re_match L (tan_pattern cfg) (py_str L cleaned_value) then 98 / 100 else 6 / 10)
      else if field_name = ''cin'' then
        (if cin_min_length cfg \<le> int (length (py_str L cleaned_value)) then 95 / 100
         else 7 / 10)
      else if field_name = ''total_amount'' then
        (if (case cleaned_value of PFloat x \<Rightarrow> float_lt (Fin 0) x | _ \<Rightarrow> False) then 95 / 100
         else 6 / 10)
      else if field_name = ''date_of_deposit'' \<or> field_name = ''tender_date'' then
        (if truthy cleaned_value then 95 / 100 else 5 / 10)
      else 9 / 10)"

text \<open>\<^verbatim>\<open>_extract_fields\<close>: one round of the loop over the pattern table, and the loop.\<close>

definition extract_field ::
  "pylib \<Rightarrow> ValidationConfig \<Rightarrow> string \<Rightarrow> string \<times> string \<Rightarrow> field_map \<Rightarrow> field_map" where
  "extract_field L cfg text item fs =
     (let field_name = fst item; pattern = snd item
      in case re_search_im L pattern text of
           None \<Rightarrow> fs
         | Some g \<Rightarrow>
             (let raw_value = strip g;
                  cleaned_value = clean_value L cfg field_name raw_value;
                  conf = calculate_field_confidence L cfg field_name raw_value cleaned_value
              in AList.update field_name
                   \<lparr>fc_value = cleaned_value, confidence = conf,
                    extraction_method = ''text_regex'', raw_text = Some raw_value\<rparr>
                   fs))"

definition extract_fields :: "pylib \<Rightarrow> ValidationConfig \<Rightarrow> string \<Rightarrow> field_map" where
  "extract_fields L cfg text = fold (extract_field L cfg text) FIELD_PATTERNS []"

text \<open>\<^verbatim>\<open>_extract_tax_breakup\<close>.\<close>

definition extract_tax_field :: "pylib \<Rightarrow> string \<Rightarrow> string \<times> string \<Rightarrow> field_map \<Rightarrow> field_map" where
  "extract_tax_field L text item fs =
     (let field_name = fst item; pattern = snd item
      in case re_search_im L pattern text of
           Some g \<Rightarrow>
             (let raw_value = strip g; numeric_value = parse_amount L raw_value
              in AList.update field_name
                   \<lparr>fc_value = (case numeric_value of None \<Rightarrow> PNone | Some x \<Rightarrow> PFloat x),
                    confidence = (if numeric_value \<noteq> None then 95 / 100 else 5 / 10),
                    extraction_method = ''text_regex'', raw_text = Some raw_value\<rparr>
                   fs)
         | None \<Rightarrow>
             AList.update field_name
               \<lparr>fc_value = PFloat (Fin 0), confidence = 8 / 10,
                extraction_method = ''default'', raw_text = None\<rparr>
               fs)"

definition extract_tax_breakup :: "pylib \<Rightarrow> string \<Rightarrow> field_map" where
  "extract_tax_breakup L text = fold (extract_tax_field L text) TAX_PATTERNS []"

text \<open>\<^verbatim>\<open>dict.update\<close>, and what \<^verbatim>\<open>extract\<close> makes of the text of the first page.\<close>

definition dict_update :: "field_map \<Rightarrow> field_map \<Rightarrow> field_map" where
  "dict_update d other = fold (\<lambda>item. AList.update (fst item) (snd item)) other d"

definition fields_of_text :: "pylib \<Rightarrow> ValidationConfig \<Rightarrow> string \<Rightarrow> field_map \<times> string" where
  "fields_of_text L cfg text =
     (if strip text = [] then ([], '''')
      else (dict_update (extract_fields L cfg text) (extract_tax_breakup L text), text))"

section \<open>Extraction pipeline (extraction/pipeline.py)\<close>

text \<open>An exception is an instance of \<^verbatim>\<open>Exception\<close>, given by the text \<^verbatim>\<open>str(e)\<close>. A call
  that may raise returns \<open>Inl\<close> of the exception or \<open>Inr\<close> of its value;
  \<^verbatim>\<open>try: body except Exception as e: handler\<close> is \<open>try_except\<close>, and a sequence of
  statements is \<open>bind\<close>.\<close>

datatype exn = Exn string

definition exn_str :: "exn \<Rightarrow> string" where
  "exn_str e = (case e of Exn m \<Rightarrow> m)"

definition try_except :: "exn + 'a \<Rightarrow> (exn \<Rightarrow> exn + 'a) \<Rightarrow> exn + 'a" where
  "try_except body handler = (case body of Inl e \<Rightarrow> handler e | Inr x \<Rightarrow> Inr x)"

definition bind :: "exn + 'a \<Rightarrow> ('a \<Rightarrow> exn + 'b) \<Rightarrow> exn + 'b" where
  "bind m f = (case m of Inl e \<Rightarrow> Inl e | Inr x \<Rightarrow> f x)"

record ExtractionResult =
  success :: bool
  er_record :: "ChallanRecord option"
  error_message :: "string option"
  er_extraction_method :: string
  processing_time_ms :: pyfloat
  warnings :: "string list"

text \<open>The argument of \<^verbatim>\<open>process\<close>: an instance of \<^verbatim>\<open>pathlib.Path\<close>, as the signature
  asks, or a \<^verbatim>\<open>str\<close>, which the libraries that open the document accept as well.\<close>

datatype pypath = PathObj string | StrObj string

text \<open>The OCR extractor and the layout extractor are given by what their \<^verbatim>\<open>extract\<close>
  returns or raises on a path. The text extractor is the function above, on the pages that
  \<^verbatim>\<open>pdfplumber\<close> reads: \<open>pdf_pages\<close> gives, for a path, the exception of
  \<^verbatim>\<open>pdfplumber.open\<close> or the list of the texts of the pages (\<open>None\<close> where
  \<^verbatim>\<open>extract_text()\<close> returns \<^verbatim>\<open>None\<close>).\<close>

record OCRExtractor =
  is_available :: bool
  ocr_extract :: "pypath \<Rightarrow> exn + (field_map \<times> string \<times> real)"

record ExtractionPipeline =
  pdf_pages :: "pypath \<Rightarrow> exn + string option list"
  layout_extract :: "pypath \<Rightarrow> exn + field_map"
  ocr_extractor :: "OCRExtractor option"

text \<open>\<^verbatim>\<open>TextExtractor.extract\<close>: its handler logs and raises the exception again.\<close>

definition text_extract ::
  "pylib \<Rightarrow> ValidationConfig \<Rightarrow> ExtractionPipeline \<Rightarrow> pypath \<Rightarrow> exn + (field_map \<times> string)" where
  "text_extract L cfg self pdf_path =
     try_except
       (bind (pdf_pages self pdf_path) (\<lambda>pages.
          case pages of
            [] \<Rightarrow> Inl (Exn ''PDF has no pages'')
          | page # _ \<Rightarrow>
              Inr (fields_of_text L cfg (case page of None \<Rightarrow> '''' | Some t \<Rightarrow> t))))
       (\<lambda>e. Inl e)"

definition try_text_extraction ::
  "pylib \<Rightarrow> ValidationConfig \<Rightarrow> ExtractionPipeline \<Rightarrow> pypath \<Rightarrow> exn + (field_map \<times> string)" where
  "try_text_extraction L cfg self pdf_path =
     try_except (text_extract L cfg self pdf_path) (\<lambda>e. Inr ([], ''''))"

definition try_layout_extraction :: "ExtractionPipeline \<Rightarrow> pypath \<Rightarrow> exn + field_map" where
  "try_layout_extraction self pdf_path =
     try_except (layout_extract self pdf_path) (\<lambda>e. Inr [])"

definition try_ocr_extraction ::
  "OCRExtractor \<Rightarrow> pypath \<Rightarrow> exn + (field_map \<times> string \<times> real)" where
  "try_ocr_extraction ocr pdf_path =
     try_except (ocr_extract ocr pdf_path) (\<lambda>e. Inr ([], '''', 0))"

definition REQUIRED_FIELDS :: "string list" where
  "REQUIRED_FIELDS = [''tan'', ''cin'', ''total_amount'', ''date_of_deposit'', ''challan_no'']"

definition FIELD_WEIGHTS :: "(string \<times> real) list" where
  "FIELD_WEIGHTS =
     [(''tan'', 3), (''cin'', 3), (''total_amount'', 3), (''date_of_deposit'', 2),
      (''challan_no'', 2), (''deductor_name'', 15 / 10), (''nature_of_payment'', 15 / 10),
      (''bsr_code'', 1)]"

definition calculate_completeness :: "field_map \<Rightarrow> real" where
  "calculate_completeness fs =
     (if REQUIRED_FIELDS = [] then 1
      else real (length (filter (\<lambda>f. case map_of fs f of
                                        None \<Rightarrow> False
                                      | Some fc \<Rightarrow> fc_value fc \<noteq> PNone) REQUIRED_FIELDS))
           / real (length REQUIRED_FIELDS))"

definition calculate_row_confidence :: "field_map \<Rightarrow> real" where
  "calculate_row_confidence fs =
     (let (total_weight, weighted_sum) =
            fold (\<lambda>item (tw, ws).
                    let weight = (case map_of FIELD_WEIGHTS (fst item) of
                                    Some w \<Rightarrow> w | None \<Rightarrow> 1)
                    in (tw + weight, ws + weight * confidence (snd item)))
                 fs (0, 0)
      in if total_weight = 0 then 0 else weighted_sum / total_weight)"

text \<open>The helpers of \<^verbatim>\<open>_build_record\<close>. In \<open>get_float\<close> the source also deletes a
  three-character sequence that contains a character outside \<^typ>\<open>string\<close>; no string of
  the model contains it.\<close>

definition get_value :: "field_map \<Rightarrow> string \<Rightarrow> pyval" where
  "get_value fs field_name =
     (case map_of fs field_name of Some fc \<Rightarrow> fc_value fc | None \<Rightarrow> PNone)"

definition get_float :: "pylib \<Rightarrow> field_map \<Rightarrow> string \<Rightarrow> pyfloat" where
  "get_float L fs field_name =
     (case get_value fs field_name of
        PNone \<Rightarrow> Fin 0
      | PFloat x \<Rightarrow> x
      | PStr s \<Rightarrow>
          (let cleaned = strip (replace_str ''Rs.'' '''' (replace_str '','' '''' s))
           in if cleaned = [] then Fin 0
              else (case float_of_str L cleaned of Some x \<Rightarrow> x | None \<Rightarrow> Fin 0)))"

definition build_parse_date ::
  "pylib \<Rightarrow> ValidationConfig \<Rightarrow> field_map \<Rightarrow> string \<Rightarrow> date option" where
  "build_parse_date L cfg fs field_name =
     (case get_value fs field_name of
        PStr s \<Rightarrow>
          (case first_format L s (date_formats cfg) of
             Some d \<Rightarrow> Some d
           | None \<Rightarrow> fromisoformat L s)
      | _ \<Rightarrow> None)"

text \<open>The model class checks the fields declared \<^verbatim>\<open>Optional[str]\<close>: a string or
  \<^verbatim>\<open>None\<close> passes, a number raises a validation error, whose text is the library's.\<close>

definition STR_FIELDS :: "string list" where
  "STR_FIELDS =
     [''tan'', ''deductor_name'', ''assessment_year'', ''financial_year'', ''major_head'',
      ''minor_head'', ''nature_of_payment'', ''amount_in_words'', ''cin'', ''bsr_code'',
      ''challan_no'', ''bank_name'', ''bank_ref_no'', ''mode_of_payment'']"

definition opt_str :: "pyval \<Rightarrow> string option" where
  "opt_str v = (case v of PStr s \<Rightarrow> Some s | _ \<Rightarrow> None)"

definition is_number :: "pyval \<Rightarrow> bool" where
  "is_number v = (case v of PFloat x \<Rightarrow> True | _ \<Rightarrow> False)"

definition build_record ::
  "pylib \<Rightarrow> ValidationConfig \<Rightarrow> field_map \<Rightarrow> string \<Rightarrow> exn + ChallanRecord" where
  "build_record L cfg fs file_name =
     (let tb = \<lparr>tax_a = get_float L fs ''tax_a'', tax_b = get_float L fs ''tax_b'',
                tax_c = get_float L fs ''tax_c'', tax_d = get_float L fs ''tax_d'',
                tax_e = get_float L fs ''tax_e'', tax_f = get_float L fs ''tax_f''\<rparr>;
          bad = filter (\<lambda>f. is_number (get_value fs f)) STR_FIELDS
      in if bad \<noteq> [] then
           Inl (Exn (validation_error_str L (map (\<lambda>f. (f, get_value fs f)) bad)))
         else Inr (snd (compute_hash L
           \<lparr>tan = opt_str (get_value fs ''tan''),
            deductor_name = opt_str (get_value fs ''deductor_name''),
            assessment_year = opt_str (get_value fs ''assessment_year''),
            financial_year = opt_str (get_value fs ''financial_year''),
            major_head = opt_str (get_value fs ''major_head''),
            minor_head = opt_str (get_value fs ''minor_head''),
            nature_of_payment = opt_str (get_value fs ''nature_of_payment''),
            total_amount = Some (get_float L fs ''total_amount''),
            amount_in_words = opt_str (get_value fs ''amount_in_words''),
            cin = opt_str (get_value fs ''cin''),
            bsr_code = opt_str (get_value fs ''bsr_code''),
            challan_no = opt_str (get_value fs ''challan_no''),
            date_of_deposit = build_parse_date L cfg fs ''date_of_deposit'',
            tender_date = build_parse_date L cfg fs ''tender_date'',
            bank_name = opt_str (get_value fs ''bank_name''),
            bank_ref_no = opt_str (get_value fs ''bank_ref_no''),
            mode_of_payment = opt_str (get_value fs ''mode_of_payment''),
            tax_breakup = tb,
            source_file = file_name,
            row_confidence = 0,
            validation_flag = PENDING,
            review_status = PENDING_REVIEW,
            notes_text = '''',
            field_confidences = [],
            record_hash = None\<rparr>)))"

text \<open>\<^verbatim>\<open>pdf_path.name\<close>: the last component of a path; a \<^verbatim>\<open>str\<close> has no such attribute,
  and the access raises \<^verbatim>\<open>AttributeError\<close>.\<close>

definition no_attribute_name :: string where
  "no_attribute_name =
     [CHR 0x27] @ ''str'' @ [CHR 0x27] @ '' object has no attribute '' @
     [CHR 0x27] @ ''name'' @ [CHR 0x27]"

definition path_name :: "pypath \<Rightarrow> exn + string" where
  "path_name pdf_path =
     (case pdf_path of
        PathObj p \<Rightarrow> Inr (rev (takeWhile (\<lambda>c. c \<noteq> CHR ''/'') (rev p)))
      | StrObj s \<Rightarrow> Inl (Exn no_attribute_name))"

text \<open>The body of the \<^verbatim>\<open>try\<close> statement of \<^verbatim>\<open>process\<close>. The time that the call measures,
  \<^verbatim>\<open>(time.time() - start_time) * 1000\<close>, is the parameter \<open>processing_time\<close>;
  \<^verbatim>\<open>{completeness:.2%}\<close> prints a hundred times the number with two decimals and a percent
  sign. The argument \<^verbatim>\<open>pdf_path.name\<close> is evaluated before \<^verbatim>\<open>_build_record\<close> is called.\<close>

definition process_body ::
  "pylib \<Rightarrow> ValidationConfig \<Rightarrow> ExtractionPipeline \<Rightarrow> pyfloat \<Rightarrow> pypath \<Rightarrow>
   exn + ExtractionResult" where
  "process_body L cfg self processing_time pdf_path =
     bind (try_text_extraction L cfg self pdf_path) (\<lambda>(text_fields, raw_text).
     bind (try_layout_extraction self pdf_path) (\<lambda>layout_fields.
     let merged_fields = merge_fields text_fields layout_fields;
         completeness = calculate_completeness merged_fields
     in bind
          (case ocr_extractor self of
             Some ocr \<Rightarrow>
               if completeness < 7 / 10 \<and> is_available ocr then
                 bind (try_ocr_extraction ocr pdf_path) (\<lambda>(ocr_fields, ocr_text, ocr_conf).
                   Inr (merge_fields merged_fields ocr_fields, ''text+ocr'',
                        [''Low text extraction completeness ('' @ fmt_2f (completeness * 100) @
                         ''%), used OCR fallback'']))
               else Inr (merged_fields, ''text'', [])
           | None \<Rightarrow> Inr (merged_fields, ''text'', []))
          (\<lambda>(merged_fields, method_name, warns).
             bind (path_name pdf_path) (\<lambda>file_name.
             bind (build_record L cfg merged_fields file_name) (\<lambda>r.
               Inr \<lparr>success = True,
                    er_record = Some (r\<lparr>row_confidence := calculate_row_confidence merged_fields,
                                        field_confidences := merged_fields\<rparr>),
                    error_message = None,
                    er_extraction_method = method_name,
                    processing_time_ms = processing_time,
                    warnings = warns\<rparr>)))))"

definition process ::
  "pylib \<Rightarrow> ValidationConfig \<Rightarrow> ExtractionPipeline \<Rightarrow> pyfloat \<Rightarrow> pypath \<Rightarrow>
   exn + ExtractionResult" where
  "process L cfg self processing_time pdf_path =
     try_except (process_body L cfg self processing_time pdf_path)
       (\<lambda>e. Inr \<lparr>success = False, er_record = None, error_message = Some (exn_str e),
                  er_extraction_method = ''failed'',
                  processing_time_ms = processing_time, warnings = []\<rparr>)"

section \<open>A library instance and sample records for the examples\<close>

text \<open>The language of the default TAN pattern \<^verbatim>\<open>^[A-Z]{4}[0-9]{5}[A-Z]$\<close>: four capital
  letters, five digits, one capital letter; \<^verbatim>\<open>$\<close> also matches before a final newline.\<close>

definition is_digit :: "char \<Rightarrow> bool" where
  "is_digit c = (48 \<le> (of_char c :: nat) \<and> (of_char c :: nat) \<le> 57)"

definition tan_shape :: "string \<Rightarrow> bool" where
  "tan_shape s =
     ((length s = 10 \<or> (length s = 11 \<and> s ! 10 = CHR 0x0A)) \<and>
      list_all is_upper (take 4 s) \<and> list_all is_digit (take 5 (drop 4 s)) \<and>
      is_upper (s ! 9))"

text \<open>SHA-256 on the three strings the examples hash; on any other string the instance
  returns the string itself.\<close>

definition example_sha256 :: "string \<Rightarrow> string" where
  "example_sha256 s =
     (if s = ''25100700517216HDFC128662025-10-07''
        then ''5e6d4d766520dbdaffd29637bc81cbc339d011738c7958b3e3d05dd2673aecd0''
      else if s = ''AB1''
        then ''2d2c4420621787b5e69542510dc6207d86e91e39479d1d34e07d49ee6c2850d7''
      else if s = ''''
        then ''e3b0c44298fc1c149afbf4c8996fb92427ae41e4649b934ca495991b7852b855''
      else s)"

text \<open>\<^verbatim>\<open>str(x)\<close> for a whole number below \<open>10\<^sup>1\<^sup>6\<close>, \<^verbatim>\<open>float(s)\<close> for the empty string and
  for a string of at most fifteen digits, \<^verbatim>\<open>strptime\<close> for the two date strings of the
  examples.\<close>

definition example_float_str :: "pyfloat \<Rightarrow> string" where
  "example_float_str x =
     (case x of
        Fin v \<Rightarrow> (if v < 0 then ''-'' else '''') @ str_nat (nat \<lfloor>\<bar>v\<bar>\<rfloor>) @ ''.0''
      | NegZero \<Rightarrow> ''-0.0''
      | PosInf \<Rightarrow> ''inf''
      | NegInf \<Rightarrow> ''-inf''
      | NaN \<Rightarrow> ''nan'')"

definition example_float_of_str :: "string \<Rightarrow> pyfloat option" where
  "example_float_of_str s =
     (if s \<noteq> [] \<and> length s \<le> 15 \<and> list_all is_digit s
      then Some (Fin (of_nat (foldl (\<lambda>n c. 10 * n + ((of_char c :: nat) - 48)) 0 s)))
      else None)"

text \<open>The rounding to a double. Between \<open>2\<^sup>5\<^sup>3\<close> and \<open>2\<^sup>5\<^sup>4\<close> in absolute value the doubles
  are the even whole numbers: the instance rounds to the nearest of them, a tie going to the
  one with the even mantissa, a multiple of four. Everywhere else it returns its argument,
  which is right for the value of a double, such as a whole number below \<open>2\<^sup>5\<^sup>3\<close>; the
  examples round no other number. No example raises a validation error either; the instance
  has one short text for all of them.\<close>

definition example_float_round :: "real \<Rightarrow> pyfloat" where
  "example_float_round x =
     (if 9007199254740992 \<le> \<bar>x\<bar> \<and> \<bar>x\<bar> \<le> 18014398509481984
      then Fin (2 * of_int (round_half_even (x / 2)))
      else Fin x)"

definition example_strptime :: "string \<Rightarrow> string \<Rightarrow> date option" where
  "example_strptime s fmt =
     (if s = ''07/10/2025'' \<and> fmt = ''%d/%m/%Y'' then Some (Date 2025 10 7) else None)"

text \<open>\<^verbatim>\<open>re.search\<close> with the two flags, on the two page texts of the examples: in
  \<^verbatim>\<open>Amount (in Rs.): ,\<close> only the pattern of the total amount matches, with the group
  \<^verbatim>\<open>,\<close>; in \<^verbatim>\<open>Date of Deposit: 99/99/2025\<close> only the pattern of the deposit date
  matches, with the group \<^verbatim>\<open>99/99/2025\<close>.\<close>

definition example_re_search_im :: "string \<Rightarrow> string \<Rightarrow> string option" where
  "example_re_search_im pattern text =
     (if map_of FIELD_PATTERNS ''total_amount'' = Some pattern \<and> text = ''Amount (in Rs.): ,''
        then Some '',''
      else if map_of FIELD_PATTERNS ''date_of_deposit'' = Some pattern \<and>
              text = ''Date of Deposit: 99/99/2025''
        then Some ''99/99/2025''
      else None)"

definition example_lib :: pylib where
  "example_lib =
     \<lparr>re_match = (\<lambda>p s. p = ''^[A-Z]{4}[0-9]{5}[A-Z]$'' \<and> tan_shape s),
      re_search = (\<lambda>p s. None),
      re_search_im = example_re_search_im,
      sha256_hexdigest = example_sha256,
      float_str = example_float_str,
      float_of_str = example_float_of_str,
      strptime = example_strptime,
      fromisoformat = (\<lambda>s. None),
      float_round = example_float_round,
      validation_error_str = (\<lambda>bad. ''validation error for ChallanRecord'')\<rparr>"

definition example_today :: date where
  "example_today = Date 2025 11 3"

text \<open>The first sample record of the test suite.\<close>

definition sample_record_1 :: ChallanRecord where
  "sample_record_1 =
     \<lparr>tan = Some ''BLRS05586H'',
      deductor_name = Some ''SYAMBHAVAN FOODS LLP'',
      assessment_year = Some ''2026-27'',
      financial_year = Some ''2025-26'',
      major_head = Some ''Corporation Tax (0020)'',
      minor_head = Some ''TDS/TCS Payable by Taxpayer (200)'',
      nature_of_payment = Some ''94J'',
      total_amount = Some (Fin 19395),
      amount_in_words = Some ''Rupees Nineteen Thousand Three Hundred And Ninety Five Only'',
      cin = Some ''25100700517216HDFC'',
      bsr_code = Some ''0510016'',
      challan_no = Some ''12866'',
      date_of_deposit = Some (Date 2025 10 7),
      tender_date = None,
      bank_name = Some ''HDFC Bank'',
      bank_ref_no = Some ''N2528040495795'',
      mode_of_payment = None,
      tax_breakup = \<lparr>tax_a = Fin 19395, tax_b = Fin 0, tax_c = Fin 0, tax_d = Fin 0,
                     tax_e = Fin 0, tax_f = Fin 0\<rparr>,
      source_file = ''25100700517216HDFC_ChallanReceipt- Input Command Challan.pdf'',
      row_confidence = 95 / 100,
      validation_flag = OK,
      review_status = PENDING_REVIEW,
      notes_text = '''',
      field_confidences = [],
      record_hash = None\<rparr>"





text \<open>Two field maps as the text and the layout strategy return them: the text strategy is
  surer of the TAN, found an empty CIN and a zero amount, and has no challan number.\<close>

definition example_text_fields :: field_map where
  "example_text_fields =
     [(''tan'', \<lparr>fc_value = PStr ''BLRS05586H'', confidence = 98 / 100,
                extraction_method = ''text_regex'', raw_text = Some ''BLRS05586H''\<rparr>),
      (''cin'', \<lparr>fc_value = PStr '''', confidence = 85 / 100,
                extraction_method = ''text_regex'', raw_text = Some ''''\<rparr>),
      (''total_amount'', \<lparr>fc_value = PFloat (Fin 0), confidence = 6 / 10,
                extraction_method = ''text_regex'', raw_text = Some ''0''\<rparr>),
      (''bank_name'', \<lparr>fc_value = PStr ''HDFC Bank'', confidence = 9 / 10,
                extraction_method = ''text_regex'', raw_text = Some ''HDFC Bank''\<rparr>)]"

definition example_layout_fields :: field_map where
  "example_layout_fields =
     [(''tan'', \<lparr>fc_value = PStr ''BLRS0558'', confidence = 85 / 100,
                extraction_method = ''layout'', raw_text = Some ''BLRS0558''\<rparr>),
      (''cin'', \<lparr>fc_value = PStr ''25100700517216HDFC'', confidence = 85 / 100,
                extraction_method = ''layout'', raw_text = Some ''25100700517216HDFC''\<rparr>),
      (''total_amount'', \<lparr>fc_value = PStr ''19,395.00'', confidence = 85 / 100,
                extraction_method = ''layout'', raw_text = Some ''19,395.00''\<rparr>),
      (''challan_no'', \<lparr>fc_value = PStr ''12866'', confidence = 85 / 100,
                extraction_method = ''layout'', raw_text = Some ''12866''\<rparr>)]"

text \<open>A pipeline without OCR for a file that is no PDF: \<^verbatim>\<open>pdfplumber\<close> raises in the text
  strategy and in the layout strategy.\<close>

definition broken_pdf_pipeline :: ExtractionPipeline where
  "broken_pdf_pipeline =
     \<lparr>pdf_pages = (\<lambda>p. Inl (Exn ''No /Root object! - Is this really a PDF?'')),
      layout_extract = (\<lambda>p. Inl (Exn ''No /Root object! - Is this really a PDF?'')),
      ocr_extractor = None\<rparr>"

section \<open>The validator: what each rule appends\<close>

lemma issues_append_issue: "issues (append_issue result i) = issues result @ [i]"
  by (simp add: append_issue_def)

lemma issues_validate_tan:
  "issues (validate_tan L self r result) = issues result @ tan_issues L self r"
  by (simp add: validate_tan_def tan_issues_def issues_append_issue)

lemma issues_validate_cin:
  "issues (validate_cin self r result) = issues result @ cin_issues self r"
  by (simp add: validate_cin_def cin_issues_def issues_append_issue)

lemma issues_validate_amounts:
  "issues (validate_amounts L r result) = issues result @ amount_issues L r"
  by (simp add: validate_amounts_def amount_issues_def issues_append_issue Let_def
           split: option.splits)

lemma issues_validate_sum_check:
  "issues (validate_sum_check L self r result) = issues result @ sum_check_issues L self r"
  by (simp add: validate_sum_check_def sum_check_issues_def issues_append_issue Let_def
           split: option.splits)

lemma issues_validate_dates:
  "issues (validate_dates today r result) = issues result @ date_issues today r"
  by (simp add: validate_dates_def date_issues_def issues_append_issue Let_def
           split: option.splits)

lemma issues_required_loop:
  "issues (required_loop kvs result) = issues result @
     map (\<lambda>kv. \<lparr>field = fst kv, issue_type = ''missing'',
                 message = title (replace_char CHR ''_'' CHR '' '' (fst kv)) @ '' is missing'',
                 severity = ''warning''\<rparr>)
         (filter (\<lambda>kv. falsy (snd kv)) kvs)"
  by (induction kvs result rule: required_loop.induct) (simp_all add: issues_append_issue)

lemma issues_validate_required_fields:
  "issues (validate_required_fields r result) = issues result @ required_issues r"
  unfolding validate_required_fields_def required_issues_def by (rule issues_required_loop)

lemma issues_check_duplicate:
  "issues (snd (snd (check_duplicate L self r result))) = issues result @ duplicate_issues L self r"
  by (simp add: check_duplicate_def duplicate_issues_def issues_append_issue Let_def
           case_prod_beta)

lemma seen_check_duplicate:
  "seen_hashes (fst (check_duplicate L self r result)) =
     insert (fst (compute_hash L r)) (seen_hashes self)"
  by (auto simp: check_duplicate_def Let_def case_prod_beta)

lemma config_check_duplicate:
  "config (fst (check_duplicate L self r result)) = config self"
  by (simp add: check_duplicate_def Let_def case_prod_beta)

lemma record_check_duplicate:
  "fst (snd (check_duplicate L self r result)) = snd (compute_hash L r)"
  by (simp add: check_duplicate_def Let_def case_prod_beta)

lemma validate_issues:
  "issues (fst (validate L today self r)) =
     tan_issues L self r @ cin_issues self r @ amount_issues L r @ sum_check_issues L self r @
     date_issues today r @ required_issues r @ duplicate_issues L self r"
  by (simp add: validate_def Let_def case_prod_beta issues_check_duplicate
        issues_validate_required_fields issues_validate_dates issues_validate_sum_check
        issues_validate_amounts issues_validate_cin issues_validate_tan)

lemma validate_seen:
  "seen_hashes (snd (snd (validate L today self r))) =
     insert (fst (compute_hash L r)) (seen_hashes self)"
  by (simp add: validate_def Let_def case_prod_beta seen_check_duplicate)

lemma validate_config:
  "config (snd (snd (validate L today self r))) = config self"
  by (simp add: validate_def Let_def case_prod_beta config_check_duplicate)

lemma validate_flag:
  "validation_flag (fst (snd (validate L today self r))) =
     (if has_errors (fst (validate L today self r)) then FLAG else OK)"
  by (auto simp: validate_def Let_def case_prod_beta has_errors_def)

lemma validate_notes:
  "notes_text (fst (snd (validate L today self r))) =
     (if issues (fst (validate L today self r)) \<noteq> []
      then issues_text (issues (fst (validate L today self r)))
      else notes_text r)"
  by (simp add: validate_def Let_def case_prod_beta record_check_duplicate compute_hash_def)

text \<open>validate changes the flag, the notes and the stored hash of the record, nothing else.\<close>

lemma validate_record:
  "fst (snd (validate L today self r)) =
     r\<lparr>validation_flag := validation_flag (fst (snd (validate L today self r))),
       notes_text := notes_text (fst (snd (validate L today self r))),
       record_hash := Some (fst (compute_hash L r))\<rparr>"
  by (simp add: validate_def Let_def case_prod_beta record_check_duplicate compute_hash_def)

lemma compute_hash_update_irrelevant:
  "fst (compute_hash L (r\<lparr>validation_flag := f, notes_text := n, record_hash := h\<rparr>)) =
     fst (compute_hash L r)"
  by (simp add: compute_hash_def hash_input_def Let_def)

section \<open>The validator: issues by type, field and severity\<close>

lemma by_type_tan:
  "filter (\<lambda>i. issue_type i = ''sum_mismatch'') (tan_issues L self r) = []"
  "filter (\<lambda>i. issue_type i = ''duplicate'') (tan_issues L self r) = []"
  "filter (\<lambda>i. issue_type i = ''suspicious'') (tan_issues L self r) = []"
  "filter (\<lambda>i. field i = ''total_amount'') (tan_issues L self r) = []"
  by (simp_all add: tan_issues_def)

lemma by_type_cin:
  "filter (\<lambda>i. issue_type i = ''sum_mismatch'') (cin_issues self r) = []"
  "filter (\<lambda>i. issue_type i = ''duplicate'') (cin_issues self r) = []"
  "filter (\<lambda>i. issue_type i = ''suspicious'') (cin_issues self r) = []"
  "filter (\<lambda>i. field i = ''total_amount'') (cin_issues self r) = []"
  by (simp_all add: cin_issues_def)

lemma by_type_amount:
  "filter (\<lambda>i. issue_type i = ''sum_mismatch'') (amount_issues L r) = []"
  "filter (\<lambda>i. issue_type i = ''duplicate'') (amount_issues L r) = []"
  "filter (\<lambda>i. field i = ''total_amount'') (amount_issues L r) = amount_issues L r"
  by (simp_all add: amount_issues_def split: option.splits)

lemma by_type_sum_check:
  "filter (\<lambda>i. issue_type i = ''duplicate'') (sum_check_issues L self r) = []"
  "filter (\<lambda>i. issue_type i = ''suspicious'') (sum_check_issues L self r) = []"
  "filter (\<lambda>i. field i = ''total_amount'') (sum_check_issues L self r) = []"
  by (simp_all add: sum_check_issues_def split: option.splits)

lemma by_type_date:
  "filter (\<lambda>i. issue_type i = ''sum_mismatch'') (date_issues today r) = []"
  "filter (\<lambda>i. issue_type i = ''duplicate'') (date_issues today r) = []"
  "filter (\<lambda>i. issue_type i = ''suspicious'') (date_issues today r) = []"
  "filter (\<lambda>i. field i = ''total_amount'') (date_issues today r) = []"
  by (simp_all add: date_issues_def split: option.splits)

lemma by_type_required:
  "filter (\<lambda>i. issue_type i = ''sum_mismatch'') (required_issues r) = []"
  "filter (\<lambda>i. issue_type i = ''duplicate'') (required_issues r) = []"
  "filter (\<lambda>i. issue_type i = ''suspicious'') (required_issues r) = []"
  "filter (\<lambda>i. field i = ''total_amount'') (required_issues r) = []"
  by (simp_all add: required_issues_def filter_map o_def)

lemma by_type_duplicate:
  "filter (\<lambda>i. issue_type i = ''sum_mismatch'') (duplicate_issues L self r) = []"
  "filter (\<lambda>i. issue_type i = ''suspicious'') (duplicate_issues L self r) = []"
  "filter (\<lambda>i. field i = ''total_amount'') (duplicate_issues L self r) = []"
  "filter (\<lambda>i. issue_type i = ''duplicate'') (duplicate_issues L self r) = duplicate_issues L self r"
  by (simp_all add: duplicate_issues_def)

lemmas by_type = by_type_tan by_type_cin by_type_amount by_type_sum_check by_type_date
  by_type_required by_type_duplicate


lemma duplicate_of_validate:
  "filter (\<lambda>i. issue_type i = ''duplicate'') (issues (fst (validate L today self r))) =
     duplicate_issues L self r"
  by (simp add: validate_issues by_type)

lemma suspicious_of_validate:
  "filter (\<lambda>i. issue_type i = ''suspicious'') (issues (fst (validate L today self r))) =
     (if \<exists>t. total_amount r = Some t \<and> float_eq t (Fin 0)
      then [\<lparr>field = ''total_amount'', issue_type = ''suspicious'',
              message = ''Total amount is zero'', severity = ''warning''\<rparr>]
      else [])"
  by (simp add: validate_issues by_type amount_issues_def split: option.splits)

lemma total_amount_of_validate:
  "filter (\<lambda>i. field i = ''total_amount'') (issues (fst (validate L today self r))) =
     amount_issues L r"
  by (simp add: validate_issues by_type)

text \<open>Which rules raise an error.\<close>

lemma errors_of_lists:
  "list_ex (\<lambda>i. severity i = ''error'') (tan_issues L self r) \<longleftrightarrow>
     falsy (tan r) \<or> \<not> re_match L (tan_pattern (config self)) (or_empty (tan r))"
  "list_ex (\<lambda>i. severity i = ''error'') (cin_issues self r) \<longleftrightarrow> falsy (cin r)"
  "list_ex (\<lambda>i. severity i = ''error'') (amount_issues L r) \<longleftrightarrow>
     (case total_amount r of None \<Rightarrow> True | Some t \<Rightarrow> float_lt t (Fin 0))"
  "list_ex (\<lambda>i. severity i = ''error'') (sum_check_issues L self r) \<longleftrightarrow>
     (case total_amount r of None \<Rightarrow> False
      | Some t \<Rightarrow>
          float_lt (sum_check_tolerance (config self))
            (float_abs (float_sub L (TaxBreakup_total L (tax_breakup r)) t)))"
  "list_ex (\<lambda>i. severity i = ''error'') (date_issues today r) \<longleftrightarrow> date_of_deposit r = None"
  "list_ex (\<lambda>i. severity i = ''error'') (required_issues r) \<longleftrightarrow> False"
  "list_ex (\<lambda>i. severity i = ''error'') (duplicate_issues L self r) \<longleftrightarrow>
     fst (compute_hash L r) \<in> seen_hashes self"
  by (auto simp: tan_issues_def cin_issues_def amount_issues_def sum_check_issues_def
        date_issues_def required_issues_def duplicate_issues_def list_ex_iff
        split: option.splits)

lemma has_errors_validate:
  "has_errors (fst (validate L today self r)) \<longleftrightarrow>
     falsy (tan r) \<or> \<not> re_match L (tan_pattern (config self)) (or_empty (tan r)) \<or>
     falsy (cin r) \<or>
     (case total_amount r of None \<Rightarrow> True
      | Some t \<Rightarrow>
          float_lt t (Fin 0) \<or>
          float_lt (sum_check_tolerance (config self))
            (float_abs (float_sub L (TaxBreakup_total L (tax_breakup r)) t))) \<or>
     date_of_deposit r = None \<or> fst (compute_hash L r) \<in> seen_hashes self"
  unfolding has_errors_def validate_issues list_ex_append errors_of_lists
  by (auto split: option.splits)

section \<open>Evaluating the examples\<close>

lemma digit_char_simps:
  "digit_char 0 = CHR ''0''" "digit_char 1 = CHR ''1''" "digit_char 2 = CHR ''2''"
  "digit_char 3 = CHR ''3''" "digit_char 4 = CHR ''4''" "digit_char 5 = CHR ''5''"
  "digit_char 6 = CHR ''6''" "digit_char 7 = CHR ''7''" "digit_char 8 = CHR ''8''"
  "digit_char 9 = CHR ''9''" "digit_char (Suc 0) = CHR ''1''"
  by code_simp+



lemma isoformat_example: "isoformat (Date 2025 10 7) = ''2025-10-07''"
  by (simp add: isoformat_def zero_pad_def str_nat.simps digit_char_simps)

lemma sample_record_1_fields:
  "tan sample_record_1 = Some ''BLRS05586H''"
  "cin sample_record_1 = Some ''25100700517216HDFC''"
  "challan_no sample_record_1 = Some ''12866''"
  "date_of_deposit sample_record_1 = Some (Date 2025 10 7)"
  "total_amount sample_record_1 = Some (Fin 19395)"
  "tax_breakup sample_record_1 =
     \<lparr>tax_a = Fin 19395, tax_b = Fin 0, tax_c = Fin 0, tax_d = Fin 0, tax_e = Fin 0,
      tax_f = Fin 0\<rparr>"
  "bsr_code sample_record_1 = Some ''0510016''"
  "bank_name sample_record_1 = Some ''HDFC Bank''"
  "deductor_name sample_record_1 = Some ''SYAMBHAVAN FOODS LLP''"
  "notes_text sample_record_1 = ''''"
  by (simp_all add: sample_record_1_def)

lemma tan_shape_example: "tan_shape ''BLRS05586H''"
  by (simp add: tan_shape_def is_upper_def is_digit_def)

lemma days_between_example: "days_between example_today (Date 2025 10 7) = 27"
  by code_simp

lemma date_less_example: "\<not> date_less example_today (Date 2025 10 7)"
  by (simp add: date_less_def example_today_def)

lemma new_validator_fields:
  "seen_hashes new_validator = {}"
  "sum_check_tolerance (config new_validator) = Fin 1"
  "tan_pattern (config new_validator) = ''^[A-Z]{4}[0-9]{5}[A-Z]$''"
  "cin_min_length (config new_validator) = 15"
  by (simp_all add: new_validator_def validation_config_def)

lemma example_lib_fields:
  "re_match example_lib = (\<lambda>p s. p = ''^[A-Z]{4}[0-9]{5}[A-Z]$'' \<and> tan_shape s)"
  "sha256_hexdigest example_lib = example_sha256"
  "float_str example_lib = example_float_str"
  "float_of_str example_lib = example_float_of_str"
  "strptime example_lib = example_strptime"
  "re_search_im example_lib = example_re_search_im"
  "float_round example_lib = example_float_round"
  by (simp_all add: example_lib_def)

text \<open>The sums and differences of the examples.\<close>

lemma example_rounding:
  "example_float_round 19395 = Fin 19395"
  "example_float_round 19396 = Fin 19396"
  "example_float_round 5000 = Fin 5000"
  "example_float_round (- 5000) = Fin (- 5000)"
  "example_float_round 10000 = Fin 10000"
  "example_float_round 10000000000000000 = Fin 10000000000000000"
  "example_float_round 10000000000000001 = Fin 10000000000000000"
  by (simp_all add: example_float_round_def round_half_even_def)

lemma example_totals:
  "TaxBreakup_total example_lib
     \<lparr>tax_a = Fin 19395, tax_b = Fin 0, tax_c = Fin 0, tax_d = Fin 0, tax_e = Fin 0,
      tax_f = Fin 0\<rparr> = Fin 19395"
  "TaxBreakup_total example_lib
     \<lparr>tax_a = Fin 5000, tax_b = Fin 0, tax_c = Fin 0, tax_d = Fin 0, tax_e = Fin 0,
      tax_f = Fin 0\<rparr> = Fin 5000"
  "TaxBreakup_total example_lib
     \<lparr>tax_a = Fin 10000, tax_b = Fin 0, tax_c = Fin 0, tax_d = Fin 0, tax_e = Fin 0,
      tax_f = Fin 0\<rparr> = Fin 10000"
  "TaxBreakup_total example_lib
     \<lparr>tax_a = Fin 10000000000000000, tax_b = Fin 1, tax_c = Fin 1, tax_d = Fin 0,
      tax_e = Fin 0, tax_f = Fin 0\<rparr> = Fin 10000000000000000"
  "TaxBreakup_total L
     \<lparr>tax_a = Fin 0, tax_b = Fin 0, tax_c = Fin 0, tax_d = Fin 0, tax_e = Fin 0,
      tax_f = Fin 0\<rparr> = Fin 0"
  by (simp_all add: TaxBreakup_total_def example_lib_fields example_rounding)

lemma example_differences:
  "float_abs (float_sub example_lib (Fin 19395) (Fin 19395)) = Fin 0"
  "float_abs (float_sub example_lib (Fin 5000) (Fin 10000)) = Fin 5000"
  "float_abs (float_sub example_lib (Fin 10000) (Fin 5000)) = Fin 5000"
  "float_abs (float_sub example_lib (Fin 10000000000000000) (Fin 10000000000000000)) = Fin 0"
  "float_abs (float_sub L (Fin 0) (Fin 0)) = Fin 0"
  by (simp_all add: float_sub_def example_lib_fields example_rounding)

text \<open>A record that passes every rule.\<close>

lemma clean_record_no_issues:
  assumes "tan r = Some ''BLRS05586H''" and "\<exists>c. cin r = Some c \<and> 15 \<le> length c"
    and "total_amount r = Some (Fin t)" and "0 < t"
    and "TaxBreakup_total example_lib (tax_breakup r) = Fin t"
    and "date_of_deposit r = Some (Date 2025 10 7)"
    and "\<not> falsy (challan_no r)" and "\<not> falsy (bsr_code r)" and "\<not> falsy (bank_name r)"
    and "\<not> falsy (deductor_name r)"
    and "config self = config new_validator"
    and "fst (compute_hash example_lib r) \<notin> seen_hashes self"
  shows "issues (fst (validate example_lib example_today self r)) = []"
  using assms
  by (auto simp: validate_issues tan_issues_def cin_issues_def amount_issues_def
        sum_check_issues_def date_issues_def required_issues_def duplicate_issues_def
        falsy_def or_empty_def new_validator_fields example_lib_fields tan_shape_example
        days_between_example date_less_example float_sub_def)

lemma compute_hash_fst:
  "fst (compute_hash L r) = take 16 (sha256_hexdigest L (hash_input r))"
  by (simp add: compute_hash_def Let_def)

lemma sample_record_1_hash:
  "fst (compute_hash example_lib sample_record_1) = ''5e6d4d766520dbda''"
  by (simp add: compute_hash_fst hash_input_def sample_record_1_fields or_empty_def
        isoformat_example example_lib_fields example_sha256_def)

lemma sample_record_1_clean:
  "issues (fst (validate example_lib example_today new_validator sample_record_1)) = []"
  by (rule clean_record_no_issues [where t = 19395])
     (simp_all add: sample_record_1_fields example_totals falsy_def new_validator_fields
        sample_record_1_hash)

section \<open>The claims on the validator\<close>

text \<open>C3. After \<^verbatim>\<open>validate(record)\<close> the flag of the record is OK or FLAG, never PENDING: it
  is FLAG exactly when an emitted issue has severity \<^verbatim>\<open>error\<close> and OK otherwise, so issues
  that are all warnings leave it OK.\<close>

theorem C3_flag_is_ok_or_flag:
  "validation_flag (fst (snd (validate L today self r))) \<noteq> PENDING \<and>
   (validation_flag (fst (snd (validate L today self r))) = FLAG \<or>
    validation_flag (fst (snd (validate L today self r))) = OK) \<and>
   (validation_flag (fst (snd (validate L today self r))) = FLAG \<longleftrightarrow>
      (\<exists>i \<in> set (issues (fst (validate L today self r))). severity i = ''error'')) \<and>
   (validation_flag (fst (snd (validate L today self r))) = OK \<longleftrightarrow>
      \<not> (\<exists>i \<in> set (issues (fst (validate L today self r))). severity i = ''error'')) \<and>
   ((\<forall>i \<in> set (issues (fst (validate L today self r))). severity i = ''warning'') \<longrightarrow>
      validation_flag (fst (snd (validate L today self r))) = OK)"
  by (auto simp: validate_flag has_errors_def list_ex_iff)

text \<open>The sample record without a bank name draws one warning and is flagged OK; the record
  whose tax breakup does not add up draws an error and is flagged FLAG.\<close>

lemma title_examples:
  "title (replace_char CHR ''_'' CHR '' '' ''challan_no'') = ''Challan No''"
  "title (replace_char CHR ''_'' CHR '' '' ''bsr_code'') = ''Bsr Code''"
  "title (replace_char CHR ''_'' CHR '' '' ''bank_name'') = ''Bank Name''"
  "title (replace_char CHR ''_'' CHR '' '' ''deductor_name'') = ''Deductor Name''"
  by code_simp+

lemma no_bank_name_issues:
  "issues (fst (validate example_lib example_today new_validator
                  (sample_record_1\<lparr>bank_name := None\<rparr>))) =
     [\<lparr>field = ''bank_name'', issue_type = ''missing'', message = ''Bank Name is missing'',
       severity = ''warning''\<rparr>]"
  by (simp add: validate_issues tan_issues_def cin_issues_def amount_issues_def
        sum_check_issues_def date_issues_def required_issues_def duplicate_issues_def
        falsy_def or_empty_def new_validator_fields example_lib_fields tan_shape_example
        days_between_example date_less_example sample_record_1_fields example_totals
        example_differences
        compute_hash_fst hash_input_def isoformat_example example_sha256_def
        title_examples)

theorem C3_flag_witness:
  "issues (fst (validate example_lib example_today new_validator
                  (sample_record_1\<lparr>bank_name := None\<rparr>))) =
     [\<lparr>field = ''bank_name'', issue_type = ''missing'', message = ''Bank Name is missing'',
       severity = ''warning''\<rparr>] \<and>
   validation_flag (fst (snd (validate example_lib example_today new_validator
                                (sample_record_1\<lparr>bank_name := None\<rparr>)))) = OK"
  using C3_flag_is_ok_or_flag [of example_lib example_today new_validator
          "sample_record_1\<lparr>bank_name := None\<rparr>"]
  by (simp add: no_bank_name_issues)

section \<open>The claim on the sum check\<close>












text \<open>C9, as amended. When validation emits at least one issue, the notes of the record
  become the issues as \<^verbatim>\<open>field: message\<close> pairs joined by a semicolon and a space, whatever
  they were before; when it emits none, the notes are left as they were.\<close>

theorem C9_notes:
  "notes_text (fst (snd (validate L today self r))) =
     (if issues (fst (validate L today self r)) = [] then notes_text r
      else join ''; '' (map (\<lambda>i. field i @ '': '' @ message i)
                          (issues (fst (validate L today self r)))))"
  by (simp add: validate_notes issues_text_def)

lemma validate_issues_notes_update:
  "issues (fst (validate L today self (r\<lparr>notes_text := n\<rparr>))) =
     issues (fst (validate L today self r))"
  by (simp add: validate_issues tan_issues_def cin_issues_def amount_issues_def
        sum_check_issues_def date_issues_def required_issues_def duplicate_issues_def
        compute_hash_fst hash_input_def split: option.splits)

theorem C9_notes_witness:
  "notes_text (fst (snd (validate example_lib example_today new_validator
                          (sample_record_1\<lparr>bank_name := None, notes_text := ''old''\<rparr>)))) =
     ''bank_name: Bank Name is missing''"
  using C9_notes [of example_lib example_today new_validator
          "sample_record_1\<lparr>bank_name := None, notes_text := ''old''\<rparr>"]
  by (simp add: validate_issues_notes_update no_bank_name_issues)

text \<open>C9 as stated fails when no issue is emitted: the sample record passes every rule, and
  notes stored on it before stay where the claim wants the empty string.\<close>

theorem C9_notes_counterexample:
  "issues (fst (validate example_lib example_today new_validator
                  (sample_record_1\<lparr>notes_text := ''checked by hand''\<rparr>))) = [] \<and>
   notes_text (fst (snd (validate example_lib example_today new_validator
                           (sample_record_1\<lparr>notes_text := ''checked by hand''\<rparr>)))) =
     ''checked by hand'' \<and>
   join ''; '' (map (\<lambda>i. field i @ '': '' @ message i)
      (issues (fst (validate example_lib example_today new_validator
                     (sample_record_1\<lparr>notes_text := ''checked by hand''\<rparr>))))) = []"
  by (simp add: validate_notes validate_issues_notes_update sample_record_1_clean)

section \<open>The claims on duplicates and on validating again\<close>

lemma compute_hash_triple:
  "cin r2 = cin r1 \<Longrightarrow> challan_no r2 = challan_no r1 \<Longrightarrow>
   date_of_deposit r2 = date_of_deposit r1 \<Longrightarrow>
   fst (compute_hash L r2) = fst (compute_hash L r1)"
  by (simp add: compute_hash_fst hash_input_def)


lemma validated_record_fields:
  "tan (fst (snd (validate L today self r))) = tan r"
  "cin (fst (snd (validate L today self r))) = cin r"
  "challan_no (fst (snd (validate L today self r))) = challan_no r"
  "date_of_deposit (fst (snd (validate L today self r))) = date_of_deposit r"
  "total_amount (fst (snd (validate L today self r))) = total_amount r"
  "tax_breakup (fst (snd (validate L today self r))) = tax_breakup r"
  by (simp_all add: validate_def Let_def case_prod_beta record_check_duplicate compute_hash_def)




text \<open>C10. The hash is the first 16 characters of the SHA-256 hex digest of the CIN, the
  challan number and the deposit date, written one after the other without a separator and
  with the empty string for a missing component. So the record with CIN \<^verbatim>\<open>AB\<close> and challan
  number \<^verbatim>\<open>1\<close> and the record with CIN \<^verbatim>\<open>A\<close> and challan number \<^verbatim>\<open>B1\<close>, otherwise equal,
  differ in their triples and get the same hash, whatever the digest function is; validated
  one after the other by a validator that starts with no hashes, the second is reported as a
  duplicate and flagged.\<close>

theorem C10_hash_collision:
  "fst (compute_hash L r) =
     take 16 (sha256_hexdigest L
       (or_empty (cin r) @ or_empty (challan_no r) @
        (case date_of_deposit r of None \<Rightarrow> [] | Some d \<Rightarrow> isoformat d))) \<and>
   record_hash (snd (compute_hash L r)) = Some (fst (compute_hash L r)) \<and>
   (cin (r\<lparr>cin := Some ''AB'', challan_no := Some ''1''\<rparr>),
    challan_no (r\<lparr>cin := Some ''AB'', challan_no := Some ''1''\<rparr>),
    date_of_deposit (r\<lparr>cin := Some ''AB'', challan_no := Some ''1''\<rparr>)) \<noteq>
   (cin (r\<lparr>cin := Some ''A'', challan_no := Some ''B1''\<rparr>),
    challan_no (r\<lparr>cin := Some ''A'', challan_no := Some ''B1''\<rparr>),
    date_of_deposit (r\<lparr>cin := Some ''A'', challan_no := Some ''B1''\<rparr>)) \<and>
   fst (compute_hash L (r\<lparr>cin := Some ''AB'', challan_no := Some ''1''\<rparr>)) =
   fst (compute_hash L (r\<lparr>cin := Some ''A'', challan_no := Some ''B1''\<rparr>)) \<and>
   (seen_hashes self = {} \<longrightarrow>
      filter (\<lambda>i. issue_type i = ''duplicate'')
        (issues (fst (validate L t1 self (r\<lparr>cin := Some ''AB'', challan_no := Some ''1''\<rparr>)))) = [] \<and>
      filter (\<lambda>i. issue_type i = ''duplicate'')
        (issues (fst (validate L t2
           (snd (snd (validate L t1 self (r\<lparr>cin := Some ''AB'', challan_no := Some ''1''\<rparr>))))
           (r\<lparr>cin := Some ''A'', challan_no := Some ''B1''\<rparr>)))) =
        [\<lparr>field = ''record'', issue_type = ''duplicate'',
          message = ''Duplicate record detected (hash: '' @
                    fst (compute_hash L (r\<lparr>cin := Some ''A'', challan_no := Some ''B1''\<rparr>)) @ '')'',
          severity = ''error''\<rparr>] \<and>
      validation_flag (fst (snd (validate L t2
           (snd (snd (validate L t1 self (r\<lparr>cin := Some ''AB'', challan_no := Some ''1''\<rparr>))))
           (r\<lparr>cin := Some ''A'', challan_no := Some ''B1''\<rparr>)))) = FLAG)"
proof -
  have h: "fst (compute_hash L (r\<lparr>cin := Some ''AB'', challan_no := Some ''1''\<rparr>)) =
           fst (compute_hash L (r\<lparr>cin := Some ''A'', challan_no := Some ''B1''\<rparr>))"
    by (simp add: compute_hash_fst hash_input_def or_empty_def)
  show ?thesis
    using h
    by (simp add: compute_hash_fst hash_input_def compute_hash_def Let_def
          duplicate_of_validate duplicate_issues_def validate_seen validate_flag
          has_errors_validate)
qed

theorem C10_hash_collision_witness:
  "seen_hashes new_validator = {} \<and>
   fst (compute_hash example_lib
          (sample_record_1\<lparr>date_of_deposit := None, cin := Some ''AB'', challan_no := Some ''1''\<rparr>)) =
     ''2d2c4420621787b5'' \<and>
   fst (compute_hash example_lib
          (sample_record_1\<lparr>date_of_deposit := None, cin := Some ''A'', challan_no := Some ''B1''\<rparr>)) =
     ''2d2c4420621787b5'' \<and>
   filter (\<lambda>i. issue_type i = ''duplicate'')
     (issues (fst (validate example_lib example_today
        (snd (snd (validate example_lib example_today new_validator
           (sample_record_1\<lparr>date_of_deposit := None, cin := Some ''AB'', challan_no := Some ''1''\<rparr>))))
        (sample_record_1\<lparr>date_of_deposit := None, cin := Some ''A'', challan_no := Some ''B1''\<rparr>)))) =
     [\<lparr>field = ''record'', issue_type = ''duplicate'',
       message = ''Duplicate record detected (hash: 2d2c4420621787b5)'',
       severity = ''error''\<rparr>]"
proof -
  have a: "fst (compute_hash example_lib
          (sample_record_1\<lparr>date_of_deposit := None, cin := Some ''A'', challan_no := Some ''B1''\<rparr>)) =
     ''2d2c4420621787b5''"
    by (simp add: compute_hash_fst hash_input_def or_empty_def example_lib_fields
          example_sha256_def)
  show ?thesis
    using C10_hash_collision [of example_lib "sample_record_1\<lparr>date_of_deposit := None\<rparr>"
            new_validator example_today example_today] a
    by (simp add: new_validator_fields)
qed

text \<open>C5, as amended. A record that a validator flagged OK is flagged OK again, with no
  issue of severity \<^verbatim>\<open>error\<close>, when it is validated again with unchanged fields by a
  validator of the same configuration that has not seen its hash: a new validator, or the
  same one after \<^verbatim>\<open>reset_dedupe_cache\<close>. The clock may have moved on.\<close>

theorem C5_revalidation:
  assumes "validation_flag (fst (snd (validate L t1 self r))) = OK"
    and "config other = config self"
    and "fst (compute_hash L r) \<notin> seen_hashes other"
  shows
    "validation_flag (fst (snd (validate L t2 other (fst (snd (validate L t1 self r)))))) = OK \<and>
     filter (\<lambda>i. severity i = ''error'')
       (issues (fst (validate L t2 other (fst (snd (validate L t1 self r)))))) = [] \<and>
     validation_flag
       (fst (snd (validate L t2 (reset_dedupe_cache (snd (snd (validate L t1 self r))))
                    (fst (snd (validate L t1 self r)))))) = OK"
proof -
  have e: "\<not> has_errors (fst (validate L t1 self r))"
    using assms(1) by (simp add: validate_flag split: if_splits)
  have hsh: "fst (compute_hash L (fst (snd (validate L t1 self r)))) = fst (compute_hash L r)"
    by (rule compute_hash_triple) (simp_all add: validated_record_fields)
  have 1: "\<not> has_errors (fst (validate L t2 other (fst (snd (validate L t1 self r)))))"
    using e assms(2,3)
    by (simp add: has_errors_validate validated_record_fields hsh split: option.splits)
  have 2: "\<not> has_errors (fst (validate L t2 (reset_dedupe_cache (snd (snd (validate L t1 self r))))
                    (fst (snd (validate L t1 self r)))))"
    using e
    by (simp add: has_errors_validate validated_record_fields hsh reset_dedupe_cache_def
          validate_config split: option.splits)
  show ?thesis
    using 1 2 by (simp add: validate_flag has_errors_def list_ex_iff filter_empty_conv)
qed

theorem C5_revalidation_witness:
  "validation_flag (fst (snd (validate example_lib example_today new_validator sample_record_1))) = OK \<and>
   config new_validator = config new_validator \<and>
   fst (compute_hash example_lib sample_record_1) \<notin> seen_hashes new_validator \<and>
   validation_flag (fst (snd (validate example_lib example_today new_validator
      (fst (snd (validate example_lib example_today new_validator sample_record_1)))))) = OK"
proof -
  have a: "validation_flag (fst (snd (validate example_lib example_today new_validator
             sample_record_1))) = OK"
    by (simp add: validate_flag has_errors_def sample_record_1_clean)
  have b: "fst (compute_hash example_lib sample_record_1) \<notin> seen_hashes new_validator"
    by (simp add: new_validator_fields)
  show ?thesis
    using C5_revalidation [OF a refl b, of example_today] a b by simp
qed

text \<open>C5 as stated fails for the validator that validated the record: it has stored the hash,
  so the second validation reports a duplicate and flags the record.\<close>

theorem C5_revalidation_counterexample:
  "validation_flag (fst (snd (validate example_lib example_today new_validator sample_record_1))) = OK \<and>
   validation_flag (fst (snd (validate example_lib example_today
      (snd (snd (validate example_lib example_today new_validator sample_record_1)))
      (fst (snd (validate example_lib example_today new_validator sample_record_1)))))) = FLAG \<and>
   filter (\<lambda>i. severity i = ''error'')
     (issues (fst (validate example_lib example_today
        (snd (snd (validate example_lib example_today new_validator sample_record_1)))
        (fst (snd (validate example_lib example_today new_validator sample_record_1)))))) \<noteq> []"
proof -
  have a: "validation_flag (fst (snd (validate example_lib example_today new_validator
             sample_record_1))) = OK"
    by (simp add: validate_flag has_errors_def sample_record_1_clean)
  have hsh: "fst (compute_hash example_lib
               (fst (snd (validate example_lib example_today new_validator sample_record_1)))) =
             fst (compute_hash example_lib sample_record_1)"
    by (rule compute_hash_triple) (simp_all add: validated_record_fields)
  have b: "has_errors (fst (validate example_lib example_today
        (snd (snd (validate example_lib example_today new_validator sample_record_1)))
        (fst (snd (validate example_lib example_today new_validator sample_record_1)))))"
    by (simp add: has_errors_validate hsh validate_seen)
  show ?thesis
    using a b by (simp add: validate_flag has_errors_def list_ex_iff filter_empty_conv)
qed

section \<open>The claim on the amount rules\<close>

lemma fields_of_lists:
  "i \<in> set (tan_issues L self r) \<Longrightarrow> field i = ''tan''"
  "i \<in> set (cin_issues self r) \<Longrightarrow> field i = ''cin''"
  "i \<in> set (sum_check_issues L self r) \<Longrightarrow> field i = ''tax_breakup''"
  "i \<in> set (date_issues today r) \<Longrightarrow> field i = ''date_of_deposit''"
  "i \<in> set (duplicate_issues L self r) \<Longrightarrow> field i = ''record''"
  "i \<in> set (required_issues r) \<Longrightarrow> severity i = ''warning''"
  by (auto simp: tan_issues_def cin_issues_def sum_check_issues_def date_issues_def
        duplicate_issues_def required_issues_def split: option.splits if_splits)

text \<open>An error that is not about the total amount comes from one of the other rules.\<close>

lemma other_errors:
  assumes "\<forall>i \<in> set (issues (fst (validate L today self r))).
             field i \<noteq> ''total_amount'' \<longrightarrow> severity i \<noteq> ''error''"
  shows "has_errors (fst (validate L today self r)) \<longleftrightarrow>
           list_ex (\<lambda>i. severity i = ''error'') (amount_issues L r)"
proof -
  have other: "severity i \<noteq> ''error''"
    if "i \<in> set (issues (fst (validate L today self r)))" and "field i \<noteq> ''total_amount''"
    for i
    using that assms by blast
  have "severity i \<noteq> ''error''" if "i \<in> set (tan_issues L self r)" for i
    using that other [of i] fields_of_lists(1) [of i L self r] by (simp add: validate_issues)
  moreover have "severity i \<noteq> ''error''" if "i \<in> set (cin_issues self r)" for i
    using that other [of i] fields_of_lists(2) [of i self r] by (simp add: validate_issues)
  moreover have "severity i \<noteq> ''error''" if "i \<in> set (sum_check_issues L self r)" for i
    using that other [of i] fields_of_lists(3) [of i L self r] by (simp add: validate_issues)
  moreover have "severity i \<noteq> ''error''" if "i \<in> set (date_issues today r)" for i
    using that other [of i] fields_of_lists(4) [of i today r] by (simp add: validate_issues)
  moreover have "severity i \<noteq> ''error''" if "i \<in> set (duplicate_issues L self r)" for i
    using that other [of i] fields_of_lists(5) [of i L self r] by (simp add: validate_issues)
  moreover have "severity i \<noteq> ''error''" if "i \<in> set (required_issues r)" for i
    using that fields_of_lists(6) [of i r] by simp
  ultimately show ?thesis
    by (auto simp: has_errors_def validate_issues list_ex_iff)
qed

lemma float_eq_not_lt: "float_eq x y \<Longrightarrow> \<not> float_lt x y"
  by (cases x; cases y) simp_all

lemma float_lt_not_eq: "float_lt x y \<Longrightarrow> \<not> float_eq x y"
  by (cases x; cases y) simp_all

text \<open>C7. For a record whose other fields raise no issue of severity \<^verbatim>\<open>error\<close>: a total
  amount equal to 0 (the float 0.0 or -0.0) gives exactly one \<^verbatim>\<open>suspicious\<close> issue, a
  warning, and the flag is OK. A negative total amount (a negative number or the negative
  infinity) gives exactly one error on the total amount, and the flag is FLAG; an absent
  total amount gives the error \<^verbatim>\<open>missing\<close> on the total amount, and the flag is FLAG. The
  last two hold whatever the other fields are.\<close>

theorem C7_amount_rules:
  "(\<forall>t. total_amount r = Some t \<longrightarrow> float_eq t (Fin 0) \<longrightarrow>
      (\<forall>i \<in> set (issues (fst (validate L today self r))).
          field i \<noteq> ''total_amount'' \<longrightarrow> severity i \<noteq> ''error'') \<longrightarrow>
      filter (\<lambda>i. issue_type i = ''suspicious'') (issues (fst (validate L today self r))) =
        [\<lparr>field = ''total_amount'', issue_type = ''suspicious'',
          message = ''Total amount is zero'', severity = ''warning''\<rparr>] \<and>
      validation_flag (fst (snd (validate L today self r))) = OK) \<and>
   (\<forall>t. total_amount r = Some t \<longrightarrow> float_lt t (Fin 0) \<longrightarrow>
      filter (\<lambda>i. field i = ''total_amount'') (issues (fst (validate L today self r))) =
        [\<lparr>field = ''total_amount'', issue_type = ''invalid'',
          message = ''Negative total amount: '' @ float_str L t, severity = ''error''\<rparr>] \<and>
      validation_flag (fst (snd (validate L today self r))) = FLAG) \<and>
   (total_amount r = None \<longrightarrow>
      filter (\<lambda>i. field i = ''total_amount'') (issues (fst (validate L today self r))) =
        [\<lparr>field = ''total_amount'', issue_type = ''missing'',
          message = ''Total amount is missing'', severity = ''error''\<rparr>] \<and>
      validation_flag (fst (snd (validate L today self r))) = FLAG)"
proof (intro conjI impI allI)
  fix t
  assume "total_amount r = Some t" and "float_eq t (Fin 0)"
  then show "filter (\<lambda>i. issue_type i = ''suspicious'') (issues (fst (validate L today self r))) =
        [\<lparr>field = ''total_amount'', issue_type = ''suspicious'',
          message = ''Total amount is zero'', severity = ''warning''\<rparr>]"
    by (simp add: suspicious_of_validate)
next
  fix t
  assume z: "total_amount r = Some t" and e: "float_eq t (Fin 0)"
    and o: "\<forall>i \<in> set (issues (fst (validate L today self r))).
              field i \<noteq> ''total_amount'' \<longrightarrow> severity i \<noteq> ''error''"
  have "\<not> has_errors (fst (validate L today self r))"
    using z float_eq_not_lt [OF e] by (simp add: other_errors [OF o] errors_of_lists)
  then show "validation_flag (fst (snd (validate L today self r))) = OK"
    by (simp add: validate_flag)
next
  fix t
  assume "total_amount r = Some t" and "float_lt t (Fin 0)"
  then show "filter (\<lambda>i. field i = ''total_amount'') (issues (fst (validate L today self r))) =
        [\<lparr>field = ''total_amount'', issue_type = ''invalid'',
          message = ''Negative total amount: '' @ float_str L t, severity = ''error''\<rparr>]"
    by (simp add: total_amount_of_validate amount_issues_def float_lt_not_eq)
next
  fix t
  assume "total_amount r = Some t" and "float_lt t (Fin 0)"
  then show "validation_flag (fst (snd (validate L today self r))) = FLAG"
    by (simp add: validate_flag has_errors_validate)
next
  assume "total_amount r = None"
  then show "filter (\<lambda>i. field i = ''total_amount'') (issues (fst (validate L today self r))) =
        [\<lparr>field = ''total_amount'', issue_type = ''missing'',
          message = ''Total amount is missing'', severity = ''error''\<rparr>]"
    by (simp add: total_amount_of_validate amount_issues_def)
next
  assume "total_amount r = None"
  then show "validation_flag (fst (snd (validate L today self r))) = FLAG"
    by (simp add: validate_flag has_errors_validate)
qed

text \<open>The sample record with every amount set to zero draws the one warning and nothing else;
  with the total amount set to -1 it draws the error on the total amount, and without a total
  amount it is flagged.\<close>

lemma zero_record_issues:
  "issues (fst (validate example_lib example_today new_validator
            (sample_record_1\<lparr>total_amount := Some (Fin 0),
               tax_breakup := \<lparr>tax_a = Fin 0, tax_b = Fin 0, tax_c = Fin 0, tax_d = Fin 0,
                                tax_e = Fin 0, tax_f = Fin 0\<rparr>\<rparr>))) =
     [\<lparr>field = ''total_amount'', issue_type = ''suspicious'',
       message = ''Total amount is zero'', severity = ''warning''\<rparr>]"
  by (simp add: validate_issues tan_issues_def cin_issues_def amount_issues_def
        sum_check_issues_def date_issues_def required_issues_def duplicate_issues_def
        falsy_def or_empty_def new_validator_fields example_lib_fields tan_shape_example
        days_between_example date_less_example sample_record_1_fields example_totals
        example_differences compute_hash_fst hash_input_def isoformat_example example_sha256_def)

theorem C7_amount_rules_witness:
  "issues (fst (validate example_lib example_today new_validator
            (sample_record_1\<lparr>total_amount := Some (Fin 0),
               tax_breakup := \<lparr>tax_a = Fin 0, tax_b = Fin 0, tax_c = Fin 0, tax_d = Fin 0,
                                tax_e = Fin 0, tax_f = Fin 0\<rparr>\<rparr>))) =
     [\<lparr>field = ''total_amount'', issue_type = ''suspicious'',
       message = ''Total amount is zero'', severity = ''warning''\<rparr>] \<and>
   validation_flag (fst (snd (validate example_lib example_today new_validator
            (sample_record_1\<lparr>total_amount := Some (Fin 0),
               tax_breakup := \<lparr>tax_a = Fin 0, tax_b = Fin 0, tax_c = Fin 0, tax_d = Fin 0,
                                tax_e = Fin 0, tax_f = Fin 0\<rparr>\<rparr>)))) = OK \<and>
   filter (\<lambda>i. field i = ''total_amount'')
     (issues (fst (validate example_lib example_today new_validator
                     (sample_record_1\<lparr>total_amount := Some (Fin (- 1))\<rparr>)))) =
     [\<lparr>field = ''total_amount'', issue_type = ''invalid'',
       message = ''Negative total amount: -1.0'', severity = ''error''\<rparr>] \<and>
   validation_flag (fst (snd (validate example_lib example_today new_validator
                     (sample_record_1\<lparr>total_amount := Some (Fin (- 1))\<rparr>)))) = FLAG \<and>
   validation_flag (fst (snd (validate example_lib example_today new_validator
                     (sample_record_1\<lparr>total_amount := None\<rparr>)))) = FLAG"
proof -
  have s: "example_float_str (Fin (- 1)) = ''-1.0''"
    by (simp add: example_float_str_def str_nat.simps digit_char_simps)
  show ?thesis
    using
      C7_amount_rules [of "sample_record_1\<lparr>total_amount := Some (Fin 0),
               tax_breakup := \<lparr>tax_a = Fin 0, tax_b = Fin 0, tax_c = Fin 0, tax_d = Fin 0,
                                tax_e = Fin 0, tax_f = Fin 0\<rparr>\<rparr>" example_lib example_today new_validator]
      C7_amount_rules [of "sample_record_1\<lparr>total_amount := Some (Fin (- 1))\<rparr>"
        example_lib example_today new_validator]
      C7_amount_rules [of "sample_record_1\<lparr>total_amount := None\<rparr>"
        example_lib example_today new_validator]
    by (simp add: zero_record_issues example_lib_fields s)
qed

section \<open>The claim on the merge\<close>

lemma map_of_merge_step_other:
  "f \<noteq> fst item \<Longrightarrow> map_of (merge_step item merged) f = map_of merged f"
  by (simp add: merge_step_def Let_def update_conv' split: option.splits)

lemma map_of_merge_step_same:
  "map_of (merge_step (f, b) merged) f =
     Some (case map_of merged f of
             None \<Rightarrow> b
           | Some a \<Rightarrow>
               if confidence a < confidence b then b
               else if confidence b = confidence a \<and> \<not> truthy (fc_value a) \<and> truthy (fc_value b)
                    then b else a)"
  by (simp add: merge_step_def Let_def update_conv' split: option.splits)

lemma map_of_merge_absent:
  "f \<notin> fst ` set secondary \<Longrightarrow> map_of (fold merge_step secondary merged) f = map_of merged f"
  by (induction secondary arbitrary: merged) (simp_all add: map_of_merge_step_other)

lemma map_of_merge_present:
  "distinct (map fst secondary) \<Longrightarrow> (f, b) \<in> set secondary \<Longrightarrow>
   map_of (fold merge_step secondary merged) f =
     Some (case map_of merged f of
             None \<Rightarrow> b
           | Some a \<Rightarrow>
               if confidence a < confidence b then b
               else if confidence b = confidence a \<and> \<not> truthy (fc_value a) \<and> truthy (fc_value b)
                    then b else a)"
proof (induction secondary arbitrary: merged)
  case Nil
  then show ?case by simp
next
  case (Cons item rest)
  show ?case
  proof (cases "item = (f, b)")
    case True
    with Cons.prems(1) have "f \<notin> fst ` set rest" by auto
    with True show ?thesis
      by (simp add: map_of_merge_absent map_of_merge_step_same)
  next
    case False
    with Cons.prems have in_rest: "(f, b) \<in> set rest" and d: "distinct (map fst rest)"
      by auto
    from in_rest have "f \<in> fst ` set rest" by force
    moreover from Cons.prems(1) have "fst item \<notin> fst ` set rest" by simp
    ultimately have "f \<noteq> fst item" by blast
    then have "map_of (merge_step item merged) f = map_of merged f"
      by (rule map_of_merge_step_other)
    with Cons.IH [OF d in_rest, of "merge_step item merged"] show ?thesis
      by simp
  qed
qed

text \<open>C2. For field maps \<open>primary\<close> and \<open>secondary\<close> (the keys of a dictionary are distinct)
  and every field \<open>f\<close>: a field in only one map keeps that map's value; a field in both takes
  the value of strictly higher confidence; at equal confidence the secondary value is taken
  exactly when the primary value is empty and the secondary value is not, where empty is what
  Python counts as false (\<^verbatim>\<open>None\<close>, the empty string, zero). A field in neither map is in
  neither the result.\<close>

theorem C2_merge_fields:
  assumes "distinct (map fst secondary)"
  shows
    "(map_of secondary f = None \<longrightarrow>
        map_of (merge_fields primary secondary) f = map_of primary f) \<and>
     (\<forall>b. map_of primary f = None \<longrightarrow> map_of secondary f = Some b \<longrightarrow>
        map_of (merge_fields primary secondary) f = Some b) \<and>
     (\<forall>a b. map_of primary f = Some a \<longrightarrow> map_of secondary f = Some b \<longrightarrow>
        (confidence a < confidence b \<longrightarrow> map_of (merge_fields primary secondary) f = Some b) \<and>
        (confidence b < confidence a \<longrightarrow> map_of (merge_fields primary secondary) f = Some a) \<and>
        (confidence a = confidence b \<longrightarrow>
           map_of (merge_fields primary secondary) f =
             (if \<not> truthy (fc_value a) \<and> truthy (fc_value b) then Some b else Some a)))"
proof (intro conjI allI impI)
  assume "map_of secondary f = None"
  then have "f \<notin> fst ` set secondary"
    by (simp add: map_of_eq_None_iff)
  then show "map_of (merge_fields primary secondary) f = map_of primary f"
    unfolding merge_fields_def by (rule map_of_merge_absent)
next
  fix b
  assume "map_of primary f = None" and "map_of secondary f = Some b"
  then show "map_of (merge_fields primary secondary) f = Some b"
    using map_of_merge_present [OF assms map_of_SomeD, of f b primary]
    by (simp add: merge_fields_def)
next
  fix a b
  assume "map_of primary f = Some a" and "map_of secondary f = Some b"
    and "confidence a < confidence b"
  then show "map_of (merge_fields primary secondary) f = Some b"
    using map_of_merge_present [OF assms map_of_SomeD, of f b primary]
    by (simp add: merge_fields_def)
next
  fix a b
  assume "map_of primary f = Some a" and "map_of secondary f = Some b"
    and "confidence b < confidence a"
  then show "map_of (merge_fields primary secondary) f = Some a"
    using map_of_merge_present [OF assms map_of_SomeD, of f b primary]
    by (simp add: merge_fields_def)
next
  fix a b
  assume "map_of primary f = Some a" and "map_of secondary f = Some b"
    and "confidence a = confidence b"
  then show "map_of (merge_fields primary secondary) f =
               (if \<not> truthy (fc_value a) \<and> truthy (fc_value b) then Some b else Some a)"
    using map_of_merge_present [OF assms map_of_SomeD, of f b primary]
    by (simp add: merge_fields_def)
qed

text \<open>On the two example maps: the TAN stays with the text strategy, the empty CIN and the
  less sure amount are replaced, the challan number is added at the end, the bank name stays.\<close>

lemma example_merge:
  "merge_fields example_text_fields example_layout_fields =
     [(''tan'', \<lparr>fc_value = PStr ''BLRS05586H'', confidence = 98 / 100,
                extraction_method = ''text_regex'', raw_text = Some ''BLRS05586H''\<rparr>),
      (''cin'', \<lparr>fc_value = PStr ''25100700517216HDFC'', confidence = 85 / 100,
                extraction_method = ''layout'', raw_text = Some ''25100700517216HDFC''\<rparr>),
      (''total_amount'', \<lparr>fc_value = PStr ''19,395.00'', confidence = 85 / 100,
                extraction_method = ''layout'', raw_text = Some ''19,395.00''\<rparr>),
      (''bank_name'', \<lparr>fc_value = PStr ''HDFC Bank'', confidence = 9 / 10,
                extraction_method = ''text_regex'', raw_text = Some ''HDFC Bank''\<rparr>),
      (''challan_no'', \<lparr>fc_value = PStr ''12866'', confidence = 85 / 100,
                extraction_method = ''layout'', raw_text = Some ''12866''\<rparr>)]"
  by (simp add: merge_fields_def merge_step_def example_text_fields_def
        example_layout_fields_def truthy_def)

theorem C2_merge_fields_witness:
  "distinct (map fst example_layout_fields) \<and>
   map_of (merge_fields example_text_fields example_layout_fields) ''cin'' =
     Some \<lparr>fc_value = PStr ''25100700517216HDFC'', confidence = 85 / 100,
           extraction_method = ''layout'', raw_text = Some ''25100700517216HDFC''\<rparr> \<and>
   map_of (merge_fields example_text_fields example_layout_fields) ''tan'' =
     Some \<lparr>fc_value = PStr ''BLRS05586H'', confidence = 98 / 100,
           extraction_method = ''text_regex'', raw_text = Some ''BLRS05586H''\<rparr> \<and>
   map_of (merge_fields example_text_fields example_layout_fields) ''challan_no'' =
     Some \<lparr>fc_value = PStr ''12866'', confidence = 85 / 100,
           extraction_method = ''layout'', raw_text = Some ''12866''\<rparr> \<and>
   map_of (merge_fields example_text_fields example_layout_fields) ''bank_name'' =
     Some \<lparr>fc_value = PStr ''HDFC Bank'', confidence = 9 / 10,
           extraction_method = ''text_regex'', raw_text = Some ''HDFC Bank''\<rparr>"
proof -
  have d: "distinct (map fst example_layout_fields)"
    by (simp add: example_layout_fields_def)
  show ?thesis
    using d
      C2_merge_fields [OF d, of "''cin''" example_text_fields]
      C2_merge_fields [OF d, of "''tan''" example_text_fields]
      C2_merge_fields [OF d, of "''challan_no''" example_text_fields]
      C2_merge_fields [OF d, of "''bank_name''" example_text_fields]
    by (simp add: example_text_fields_def example_layout_fields_def truthy_def)
qed

section \<open>The claim on the confidence of fields that fail to parse\<close>

lemma map_of_extract_field_other:
  "k \<noteq> fst item \<Longrightarrow> map_of (extract_field L cfg text item fs) k = map_of fs k"
  by (simp add: extract_field_def Let_def update_conv' split: option.splits)

lemma map_of_extract_field_same:
  "map_of (extract_field L cfg text (k, p) fs) k =
     (case re_search_im L p text of
        None \<Rightarrow> map_of fs k
      | Some g \<Rightarrow>
          Some \<lparr>fc_value = clean_value L cfg k (strip g),
                confidence = calculate_field_confidence L cfg k (strip g)
                               (clean_value L cfg k (strip g)),
                extraction_method = ''text_regex'', raw_text = Some (strip g)\<rparr>)"
  by (simp add: extract_field_def Let_def update_conv' split: option.splits)

lemma map_of_extract_absent:
  "k \<notin> fst ` set pats \<Longrightarrow> map_of (fold (extract_field L cfg text) pats fs) k = map_of fs k"
  by (induction pats arbitrary: fs) (simp_all add: map_of_extract_field_other)

lemma map_of_extract_present:
  "distinct (map fst pats) \<Longrightarrow> (k, p) \<in> set pats \<Longrightarrow>
   map_of (fold (extract_field L cfg text) pats fs) k =
     (case re_search_im L p text of
        None \<Rightarrow> map_of fs k
      | Some g \<Rightarrow>
          Some \<lparr>fc_value = clean_value L cfg k (strip g),
                confidence = calculate_field_confidence L cfg k (strip g)
                               (clean_value L cfg k (strip g)),
                extraction_method = ''text_regex'', raw_text = Some (strip g)\<rparr>)"
proof (induction pats arbitrary: fs)
  case Nil
  then show ?case by simp
next
  case (Cons item rest)
  show ?case
  proof (cases "item = (k, p)")
    case True
    with Cons.prems(1) have "k \<notin> fst ` set rest" by auto
    with True show ?thesis
      by (simp add: map_of_extract_absent map_of_extract_field_same)
  next
    case False
    with Cons.prems have in_rest: "(k, p) \<in> set rest" and d: "distinct (map fst rest)"
      by auto
    from in_rest have "k \<in> fst ` set rest" by force
    moreover from Cons.prems(1) have "fst item \<notin> fst ` set rest" by simp
    ultimately have "k \<noteq> fst item" by blast
    then have "map_of (extract_field L cfg text item fs) k = map_of fs k"
      by (rule map_of_extract_field_other)
    with Cons.IH [OF d in_rest, of "extract_field L cfg text item fs"] show ?thesis
      by (simp split: option.splits)
  qed
qed

lemma FIELD_PATTERNS_distinct: "distinct (map fst FIELD_PATTERNS)"
  by (simp add: FIELD_PATTERNS_def)

text \<open>What the text strategy emits for a field whose pattern matches.\<close>

lemma extract_fields_match:
  assumes "map_of FIELD_PATTERNS k = Some p" and "re_search_im L p text = Some g"
  shows "map_of (extract_fields L cfg text) k =
           Some \<lparr>fc_value = clean_value L cfg k (strip g),
                 confidence = calculate_field_confidence L cfg k (strip g)
                                (clean_value L cfg k (strip g)),
                 extraction_method = ''text_regex'', raw_text = Some (strip g)\<rparr>"
proof -
  have "(k, p) \<in> set FIELD_PATTERNS"
    using assms(1) by (rule map_of_SomeD)
  with FIELD_PATTERNS_distinct show ?thesis
    using assms(2) by (simp add: extract_fields_def map_of_extract_present)
qed

text \<open>C8, as amended. When the pattern of the total amount matches and the captured text
  cannot be parsed as a float, the text strategy still emits the field, with the value
  \<^verbatim>\<open>None\<close> and the confidence 0.3; when the pattern of a date field matches and the captured
  text parses under none of the configured formats, it emits the field with the value
  \<^verbatim>\<open>None\<close> and the confidence 0.3.\<close>

theorem C8_unparsed_confidence:
  assumes "map_of FIELD_PATTERNS k = Some p" and "re_search_im L p text = Some g"
  shows
    "(k = ''total_amount'' \<longrightarrow> parse_amount L (strip (strip g)) = None \<longrightarrow>
        map_of (extract_fields L cfg text) k =
          Some \<lparr>fc_value = PNone, confidence = 3 / 10, extraction_method = ''text_regex'',
                raw_text = Some (strip g)\<rparr>) \<and>
     (k = ''date_of_deposit'' \<or> k = ''tender_date'' \<longrightarrow>
        first_format L (strip (strip g)) (date_formats cfg) = None \<longrightarrow>
        map_of (extract_fields L cfg text) k =
          Some \<lparr>fc_value = PNone, confidence = 3 / 10, extraction_method = ''text_regex'',
                raw_text = Some (strip g)\<rparr>)"
proof -
  have amount: "clean_value L cfg ''total_amount'' (strip g) = PNone"
    if "parse_amount L (strip (strip g)) = None"
    using that by (simp add: clean_value_def Let_def)
  have dates: "clean_value L cfg k (strip g) = PNone"
    if "k = ''date_of_deposit'' \<or> k = ''tender_date''"
      and "first_format L (strip (strip g)) (date_formats cfg) = None"
    using that by (auto simp: clean_value_def Let_def parse_date_def)
  show ?thesis
    unfolding extract_fields_match [OF assms]
    using amount dates by (auto simp: calculate_field_confidence_def)
qed

text \<open>The two page texts of the examples: a comma where the amount should be, and a date
  with day and month 99.\<close>

lemma strip_examples:
  "strip '','' = '',''" "strip ''99/99/2025'' = ''99/99/2025''"
  by (simp_all add: strip_def is_space_def)

lemma example_amount_pattern:
  "map_of FIELD_PATTERNS ''total_amount'' = Some p \<Longrightarrow>
   re_search_im example_lib p ''Amount (in Rs.): ,'' = Some '',''"
  by (simp add: example_lib_fields example_re_search_im_def)

lemma example_date_pattern:
  "map_of FIELD_PATTERNS ''date_of_deposit'' = Some p \<Longrightarrow>
   re_search_im example_lib p ''Date of Deposit: 99/99/2025'' = Some ''99/99/2025''"
  by (simp add: example_lib_fields example_re_search_im_def)

lemma pattern_exists:
  "\<exists>p. map_of FIELD_PATTERNS ''total_amount'' = Some p"
  "\<exists>p. map_of FIELD_PATTERNS ''date_of_deposit'' = Some p"
  by (simp_all add: FIELD_PATTERNS_def)

lemma example_unparsed:
  "parse_amount example_lib '','' = None"
  "first_format example_lib ''99/99/2025'' (date_formats validation_config) = None"
  by (simp_all add: parse_amount_def example_lib_fields example_float_of_str_def
        validation_config_def example_strptime_def)

theorem C8_unparsed_confidence_witness:
  "parse_amount example_lib (strip (strip '','')) = None \<and>
   map_of (extract_fields example_lib validation_config ''Amount (in Rs.): ,'') ''total_amount'' =
     Some \<lparr>fc_value = PNone, confidence = 3 / 10, extraction_method = ''text_regex'',
           raw_text = Some '',''\<rparr> \<and>
   first_format example_lib (strip (strip ''99/99/2025'')) (date_formats validation_config) =
     None \<and>
   map_of (extract_fields example_lib validation_config ''Date of Deposit: 99/99/2025'')
     ''date_of_deposit'' =
     Some \<lparr>fc_value = PNone, confidence = 3 / 10, extraction_method = ''text_regex'',
           raw_text = Some ''99/99/2025''\<rparr>"
proof -
  obtain p where p: "map_of FIELD_PATTERNS ''total_amount'' = Some p"
    using pattern_exists(1) by blast
  obtain q where q: "map_of FIELD_PATTERNS ''date_of_deposit'' = Some q"
    using pattern_exists(2) by blast
  show ?thesis
    using C8_unparsed_confidence [OF p example_amount_pattern [OF p], of validation_config]
      C8_unparsed_confidence [OF q example_date_pattern [OF q], of validation_config]
    by (simp add: strip_examples example_unparsed)
qed

text \<open>C8 as stated fails: for the captured amount \<^verbatim>\<open>,\<close>, which \<^verbatim>\<open>float\<close> rejects once the
  comma is deleted, the confidence is 0.3 and not 0.6; for the captured date
  \<^verbatim>\<open>99/99/2025\<close>, which no format parses, it is 0.3 and not 0.5.\<close>

theorem C8_unparsed_confidence_counterexample:
  "float_of_str example_lib (filter (\<lambda>c. c \<noteq> CHR '','') '','') = None \<and>
   map_option confidence
     (map_of (extract_fields example_lib validation_config ''Amount (in Rs.): ,'')
        ''total_amount'') = Some (3 / 10) \<and>
   map_option confidence
     (map_of (extract_fields example_lib validation_config ''Amount (in Rs.): ,'')
        ''total_amount'') \<noteq> Some (6 / 10) \<and>
   map_option confidence
     (map_of (extract_fields example_lib validation_config ''Date of Deposit: 99/99/2025'')
        ''date_of_deposit'') = Some (3 / 10) \<and>
   map_option confidence
     (map_of (extract_fields example_lib validation_config ''Date of Deposit: 99/99/2025'')
        ''date_of_deposit'') \<noteq> Some (5 / 10)"
proof -
  obtain p where p: "map_of FIELD_PATTERNS ''total_amount'' = Some p"
    using pattern_exists(1) by blast
  obtain q where q: "map_of FIELD_PATTERNS ''date_of_deposit'' = Some q"
    using pattern_exists(2) by blast
  have a: "clean_value example_lib validation_config ''total_amount'' '','' = PNone"
    by (simp add: clean_value_def Let_def strip_examples example_unparsed)
  have b: "clean_value example_lib validation_config ''date_of_deposit'' ''99/99/2025'' = PNone"
    by (simp add: clean_value_def Let_def strip_examples example_unparsed parse_date_def)
  show ?thesis
    by (simp add: extract_fields_match [OF p example_amount_pattern [OF p]]
          extract_fields_match [OF q example_date_pattern [OF q]]
          strip_examples a b calculate_field_confidence_def example_lib_fields
          example_float_of_str_def)
qed

section \<open>The claim on the failures of the pipeline\<close>

lemma try_extraction_total:
  "\<exists>x. try_text_extraction L cfg self pdf_path = Inr x"
  "\<exists>x. try_layout_extraction self pdf_path = Inr x"
  "\<exists>x. try_ocr_extraction ocr pdf_path = Inr x"
  by (simp_all add: try_text_extraction_def try_layout_extraction_def try_ocr_extraction_def
        try_except_def split: sum.splits)

lemma try_extraction_degrades:
  "text_extract L cfg self pdf_path = Inl e \<Longrightarrow>
   try_text_extraction L cfg self pdf_path = Inr ([], '''')"
  "layout_extract self pdf_path = Inl e \<Longrightarrow> try_layout_extraction self pdf_path = Inr []"
  "ocr_extract ocr pdf_path = Inl e \<Longrightarrow> try_ocr_extraction ocr pdf_path = Inr ([], '''', 0)"
  by (simp_all add: try_text_extraction_def try_layout_extraction_def try_ocr_extraction_def
        try_except_def)

lemma try_extraction_passes:
  "text_extract L cfg self pdf_path = Inr x \<Longrightarrow>
   try_text_extraction L cfg self pdf_path = Inr x"
  "layout_extract self pdf_path = Inr y \<Longrightarrow> try_layout_extraction self pdf_path = Inr y"
  "ocr_extract ocr pdf_path = Inr z \<Longrightarrow> try_ocr_extraction ocr pdf_path = Inr z"
  by (simp_all add: try_text_extraction_def try_layout_extraction_def try_ocr_extraction_def
        try_except_def)

text \<open>The text extractor fails when the document cannot be opened or has no page.\<close>

lemma text_extract_fails:
  "pdf_pages self pdf_path = Inl e \<Longrightarrow> text_extract L cfg self pdf_path = Inl e"
  "pdf_pages self pdf_path = Inr [] \<Longrightarrow>
   text_extract L cfg self pdf_path = Inl (Exn ''PDF has no pages'')"
  by (simp_all add: text_extract_def try_except_def bind_def)

text \<open>A body that returns has built a record.\<close>

lemma process_body_returns:
  assumes "process_body L cfg self processing_time pdf_path = Inr res"
  shows "success res \<and> er_record res \<noteq> None \<and> error_message res = None \<and>
         (er_extraction_method res = ''text'' \<or> er_extraction_method res = ''text+ocr'')"
proof -
  obtain tf where tf: "try_text_extraction L cfg self pdf_path = Inr tf"
    using try_extraction_total(1) by blast
  obtain lf where lf: "try_layout_extraction self pdf_path = Inr lf"
    using try_extraction_total(2) by blast
  show ?thesis
    using assms
    by (auto simp: process_body_def bind_def tf lf Let_def case_prod_beta
          split: option.splits if_splits sum.splits)
qed

text \<open>A body that raises does so where it reads the name of the file or where it builds the
  record, and the model class raises for a number in a field that is declared a string.\<close>

lemma build_record_raises:
  assumes "build_record L cfg fs file_name = Inl e"
  shows "filter (\<lambda>f. is_number (get_value fs f)) STR_FIELDS \<noteq> [] \<and>
         e = Exn (validation_error_str L
                    (map (\<lambda>f. (f, get_value fs f))
                       (filter (\<lambda>f. is_number (get_value fs f)) STR_FIELDS)))"
  using assms by (simp add: build_record_def Let_def split: if_splits)

lemma process_body_raises:
  assumes "process_body L cfg self processing_time pdf_path = Inl e"
  shows "path_name pdf_path = Inl e \<or> (\<exists>fs file_name. build_record L cfg fs file_name = Inl e)"
proof -
  obtain tf where tf: "try_text_extraction L cfg self pdf_path = Inr tf"
    using try_extraction_total(1) by blast
  obtain lf where lf: "try_layout_extraction self pdf_path = Inr lf"
    using try_extraction_total(2) by blast
  show ?thesis
  proof (cases "ocr_extractor self")
    case None
    then show ?thesis
      using assms
      by (auto simp: process_body_def bind_def tf lf Let_def case_prod_beta
            split: if_splits sum.splits)
  next
    case (Some o1)
    obtain x where x: "try_ocr_extraction o1 pdf_path = Inr x"
      using try_extraction_total(3) by blast
    show ?thesis
      using assms
      by (auto simp: process_body_def bind_def tf lf Let_def case_prod_beta Some x
            split: if_splits sum.splits)
  qed
qed

text \<open>When the argument is a \<^verbatim>\<open>str\<close> the body raises where it reads the name of the
  file.\<close>

lemma process_body_str:
  "process_body L cfg self processing_time (StrObj s) = Inl (Exn no_attribute_name)"
proof -
  obtain tf where tf: "try_text_extraction L cfg self (StrObj s) = Inr tf"
    using try_extraction_total(1) by blast
  obtain lf where lf: "try_layout_extraction self (StrObj s) = Inr lf"
    using try_extraction_total(2) by blast
  have ocr: "\<exists>x. try_ocr_extraction ocr (StrObj s) = Inr x" for ocr
    by (rule try_extraction_total(3))
  show ?thesis
  proof (cases "ocr_extractor self")
    case None
    then show ?thesis
      by (simp add: process_body_def bind_def tf lf Let_def case_prod_beta path_name_def)
  next
    case (Some o1)
    obtain x where x: "try_ocr_extraction o1 (StrObj s) = Inr x"
      using ocr by blast
    show ?thesis
      by (simp add: process_body_def bind_def tf lf Let_def case_prod_beta path_name_def
            Some x)
  qed
qed

text \<open>The record that \<^verbatim>\<open>_build_record\<close> makes of the empty field map, and what
  \<^verbatim>\<open>process\<close> returns for a document that no strategy can read.\<close>

lemma empty_map_values:
  "calculate_completeness [] = 0" "calculate_row_confidence [] = 0"
  "merge_fields [] [] = []"
  by (simp_all add: calculate_completeness_def calculate_row_confidence_def merge_fields_def
        REQUIRED_FIELDS_def)

lemma build_record_empty:
  "\<exists>r. build_record L cfg [] file_name = Inr r"
  by (simp add: build_record_def Let_def STR_FIELDS_def get_value_def is_number_def)

lemma unreadable_document:
  assumes "text_extract L cfg self (PathObj p) = Inl e1"
    and "layout_extract self (PathObj p) = Inl e2"
    and "\<forall>ocr. ocr_extractor self = Some ocr \<longrightarrow> is_available ocr \<longrightarrow>
           (\<exists>e3. ocr_extract ocr (PathObj p) = Inl e3)"
    and "path_name (PathObj p) = Inr file_name"
    and "build_record L cfg [] file_name = Inr r"
  shows "\<exists>res. process L cfg self processing_time (PathObj p) = Inr res \<and> success res \<and>
               error_message res = None \<and>
               er_record res = Some (r\<lparr>row_confidence := 0, field_confidences := []\<rparr>)"
proof -
  have tf: "try_text_extraction L cfg self (PathObj p) = Inr ([], '''')"
    using assms(1) by (rule try_extraction_degrades)
  have lf: "try_layout_extraction self (PathObj p) = Inr []"
    using assms(2) by (rule try_extraction_degrades)
  show ?thesis
  proof (cases "ocr_extractor self")
    case None
    then show ?thesis
      using assms(4,5)
      by (simp add: process_def try_except_def process_body_def bind_def tf lf Let_def
            empty_map_values)
  next
    case (Some o1)
    show ?thesis
    proof (cases "is_available o1")
      case False
      with Some show ?thesis
        using assms(4,5)
        by (simp add: process_def try_except_def process_body_def bind_def tf lf Let_def
              empty_map_values)
    next
      case True
      with Some assms(3) obtain e3 where "ocr_extract o1 (PathObj p) = Inl e3"
        by blast
      then have "try_ocr_extraction o1 (PathObj p) = Inr ([], '''', 0)"
        by (rule try_extraction_degrades)
      with Some True show ?thesis
        using assms(4,5)
        by (simp add: process_def try_except_def process_body_def bind_def tf lf Let_def
              empty_map_values)
    qed
  qed
qed

text \<open>C6, as amended. \<^verbatim>\<open>process\<close> returns a result for every argument, library,
  configuration and behaviour of the extractors: it never raises. An extractor that raises
  is caught by its wrapper and contributes an empty field map, and that is no failure of the
  pipeline: for a document on which the text strategy and the layout strategy raise, and the
  OCR strategy is absent, unavailable or raises too, the result has \<^verbatim>\<open>success = True\<close> and
  carries the record built from the empty field map. A result with \<^verbatim>\<open>success = False\<close>
  comes only from an exception raised outside the wrappers: it has no record, the method
  \<^verbatim>\<open>failed\<close> and the text of the exception as its message, and the exception is the one
  of \<^verbatim>\<open>pdf_path.name\<close> on an argument that is a \<^verbatim>\<open>str\<close>, or the validation error of the
  model class for a number in a string field. A result with \<^verbatim>\<open>success = True\<close> has a record
  and the method \<^verbatim>\<open>text\<close> or \<^verbatim>\<open>text+ocr\<close>.\<close>

theorem C6_process_never_raises:
  "(\<exists>res. process L cfg self processing_time pdf_path = Inr res \<and>
      (success res \<longrightarrow>
         er_record res \<noteq> None \<and> error_message res = None \<and>
         (er_extraction_method res = ''text'' \<or> er_extraction_method res = ''text+ocr'')) \<and>
      (\<not> success res \<longrightarrow>
         er_record res = None \<and> er_extraction_method res = ''failed'' \<and>
         processing_time_ms res = processing_time \<and> warnings res = [] \<and>
         (\<exists>e. process_body L cfg self processing_time pdf_path = Inl e \<and>
              error_message res = Some (exn_str e)) \<and>
         ((\<exists>s. pdf_path = StrObj s \<and> error_message res = Some no_attribute_name) \<or>
          (\<exists>fs. filter (\<lambda>f. is_number (get_value fs f)) STR_FIELDS \<noteq> [] \<and>
             error_message res =
               Some (validation_error_str L
                       (map (\<lambda>f. (f, get_value fs f))
                          (filter (\<lambda>f. is_number (get_value fs f)) STR_FIELDS))))))) \<and>
   (\<forall>e. text_extract L cfg self pdf_path = Inl e \<longrightarrow>
      try_text_extraction L cfg self pdf_path = Inr ([], '''')) \<and>
   (\<forall>e. layout_extract self pdf_path = Inl e \<longrightarrow>
      try_layout_extraction self pdf_path = Inr []) \<and>
   (\<forall>ocr e. ocr_extract ocr pdf_path = Inl e \<longrightarrow>
      try_ocr_extraction ocr pdf_path = Inr ([], '''', 0)) \<and>
   (\<forall>p e1 e2 file_name r.
      pdf_path = PathObj p \<longrightarrow>
      text_extract L cfg self pdf_path = Inl e1 \<longrightarrow>
      layout_extract self pdf_path = Inl e2 \<longrightarrow>
      (\<forall>ocr. ocr_extractor self = Some ocr \<longrightarrow> is_available ocr \<longrightarrow>
         (\<exists>e3. ocr_extract ocr pdf_path = Inl e3)) \<longrightarrow>
      path_name pdf_path = Inr file_name \<longrightarrow>
      build_record L cfg [] file_name = Inr r \<longrightarrow>
      (\<exists>res. process L cfg self processing_time pdf_path = Inr res \<and> success res \<and>
         error_message res = None \<and>
         er_record res = Some (r\<lparr>row_confidence := 0, field_confidences := []\<rparr>))) \<and>
   (\<forall>s. pdf_path = StrObj s \<longrightarrow>
      process L cfg self processing_time pdf_path =
        Inr \<lparr>success = False, er_record = None, error_message = Some no_attribute_name,
             er_extraction_method = ''failed'', processing_time_ms = processing_time,
             warnings = []\<rparr>)"
proof (intro conjI allI impI)
  show "\<exists>res. process L cfg self processing_time pdf_path = Inr res \<and>
      (success res \<longrightarrow>
         er_record res \<noteq> None \<and> error_message res = None \<and>
         (er_extraction_method res = ''text'' \<or> er_extraction_method res = ''text+ocr'')) \<and>
      (\<not> success res \<longrightarrow>
         er_record res = None \<and> er_extraction_method res = ''failed'' \<and>
         processing_time_ms res = processing_time \<and> warnings res = [] \<and>
         (\<exists>e. process_body L cfg self processing_time pdf_path = Inl e \<and>
              error_message res = Some (exn_str e)) \<and>
         ((\<exists>s. pdf_path = StrObj s \<and> error_message res = Some no_attribute_name) \<or>
          (\<exists>fs. filter (\<lambda>f. is_number (get_value fs f)) STR_FIELDS \<noteq> [] \<and>
             error_message res =
               Some (validation_error_str L
                       (map (\<lambda>f. (f, get_value fs f))
                          (filter (\<lambda>f. is_number (get_value fs f)) STR_FIELDS))))))"
  proof (cases "process_body L cfg self processing_time pdf_path")
    case (Inl e)
    have res: "process L cfg self processing_time pdf_path =
        Inr \<lparr>success = False, er_record = None, error_message = Some (exn_str e),
             er_extraction_method = ''failed'', processing_time_ms = processing_time,
             warnings = []\<rparr>"
      using Inl by (simp add: process_def try_except_def)
    from process_body_raises [OF Inl]
    have "(\<exists>s. pdf_path = StrObj s \<and> exn_str e = no_attribute_name) \<or>
          (\<exists>fs. filter (\<lambda>f. is_number (get_value fs f)) STR_FIELDS \<noteq> [] \<and>
             exn_str e =
               validation_error_str L
                 (map (\<lambda>f. (f, get_value fs f))
                    (filter (\<lambda>f. is_number (get_value fs f)) STR_FIELDS)))"
    proof
      assume "path_name pdf_path = Inl e"
      then have "\<exists>s. pdf_path = StrObj s \<and> exn_str e = no_attribute_name"
        by (cases pdf_path) (auto simp: path_name_def exn_str_def)
      then show ?thesis ..
    next
      assume "\<exists>fs file_name. build_record L cfg fs file_name = Inl e"
      then obtain fs file_name where "build_record L cfg fs file_name = Inl e"
        by blast
      from build_record_raises [OF this]
      have "filter (\<lambda>f. is_number (get_value fs f)) STR_FIELDS \<noteq> [] \<and>
            exn_str e =
              validation_error_str L
                (map (\<lambda>f. (f, get_value fs f))
                   (filter (\<lambda>f. is_number (get_value fs f)) STR_FIELDS))"
        by (simp add: exn_str_def)
      then show ?thesis by blast
    qed
    with res Inl show ?thesis
      by simp
  next
    case (Inr res)
    with process_body_returns [OF Inr] show ?thesis
      by (simp add: process_def try_except_def)
  qed
next
  fix e
  assume "text_extract L cfg self pdf_path = Inl e"
  then show "try_text_extraction L cfg self pdf_path = Inr ([], '''')"
    by (rule try_extraction_degrades)
next
  fix e
  assume "layout_extract self pdf_path = Inl e"
  then show "try_layout_extraction self pdf_path = Inr []"
    by (rule try_extraction_degrades)
next
  fix ocr :: OCRExtractor and e
  assume "ocr_extract ocr pdf_path = Inl e"
  then show "try_ocr_extraction ocr pdf_path = Inr ([], '''', 0)"
    by (rule try_extraction_degrades)
next
  fix p e1 e2 file_name r
  assume "pdf_path = PathObj p"
    and "text_extract L cfg self pdf_path = Inl e1"
    and "layout_extract self pdf_path = Inl e2"
    and "\<forall>ocr. ocr_extractor self = Some ocr \<longrightarrow> is_available ocr \<longrightarrow>
           (\<exists>e3. ocr_extract ocr pdf_path = Inl e3)"
    and "path_name pdf_path = Inr file_name"
    and "build_record L cfg [] file_name = Inr r"
  then show "\<exists>res. process L cfg self processing_time pdf_path = Inr res \<and> success res \<and>
         error_message res = None \<and>
         er_record res = Some (r\<lparr>row_confidence := 0, field_confidences := []\<rparr>)"
    using unreadable_document [of L cfg self p e1 e2 file_name r processing_time] by simp
next
  fix s
  assume "pdf_path = StrObj s"
  then show "process L cfg self processing_time pdf_path =
        Inr \<lparr>success = False, er_record = None, error_message = Some no_attribute_name,
             er_extraction_method = ''failed'', processing_time_ms = processing_time,
             warnings = []\<rparr>"
    by (simp add: process_def try_except_def process_body_str exn_str_def)
qed

text \<open>A pipeline without OCR on a file that is no PDF: \<^verbatim>\<open>pdfplumber\<close> raises in the text
  strategy and in the layout strategy. Called with the path of the file as a \<^verbatim>\<open>str\<close>,
  \<^verbatim>\<open>process\<close> returns a failure with the message of the \<^verbatim>\<open>AttributeError\<close>; called
  with a \<^verbatim>\<open>Path\<close>, it returns a success.\<close>

lemma broken_pdf_pipeline_fields:
  "pdf_pages broken_pdf_pipeline p = Inl (Exn ''No /Root object! - Is this really a PDF?'')"
  "layout_extract broken_pdf_pipeline p =
     Inl (Exn ''No /Root object! - Is this really a PDF?'')"
  "ocr_extractor broken_pdf_pipeline = None"
  by (simp_all add: broken_pdf_pipeline_def)

lemma path_name_example: "path_name (PathObj ''uploads/scan.pdf'') = Inr ''scan.pdf''"
  by (simp add: path_name_def)

lemma empty_record_example:
  "build_record example_lib validation_config [] ''scan.pdf'' =
     Inr \<lparr>tan = None, deductor_name = None, assessment_year = None, financial_year = None,
          major_head = None, minor_head = None, nature_of_payment = None,
          total_amount = Some (Fin 0), amount_in_words = None, cin = None, bsr_code = None,
          challan_no = None, date_of_deposit = None, tender_date = None, bank_name = None,
          bank_ref_no = None, mode_of_payment = None,
          tax_breakup = \<lparr>tax_a = Fin 0, tax_b = Fin 0, tax_c = Fin 0, tax_d = Fin 0,
                          tax_e = Fin 0, tax_f = Fin 0\<rparr>,
          source_file = ''scan.pdf'', row_confidence = 0, validation_flag = PENDING,
          review_status = PENDING_REVIEW, notes_text = '''', field_confidences = [],
          record_hash = Some ''e3b0c44298fc1c14''\<rparr>"
  by (simp add: build_record_def Let_def STR_FIELDS_def get_value_def get_float_def
        is_number_def opt_str_def build_parse_date_def compute_hash_def hash_input_def
        or_empty_def example_lib_fields example_sha256_def)

theorem C6_process_never_raises_witness:
  "process example_lib validation_config broken_pdf_pipeline (Fin 1000)
     (StrObj ''uploads/scan.pdf'') =
     Inr \<lparr>success = False, er_record = None, error_message = Some no_attribute_name,
          er_extraction_method = ''failed'', processing_time_ms = Fin 1000, warnings = []\<rparr> \<and>
   text_extract example_lib validation_config broken_pdf_pipeline (StrObj ''uploads/scan.pdf'') =
     Inl (Exn ''No /Root object! - Is this really a PDF?'') \<and>
   try_text_extraction example_lib validation_config broken_pdf_pipeline
     (StrObj ''uploads/scan.pdf'') = Inr ([], '''') \<and>
   try_layout_extraction broken_pdf_pipeline (StrObj ''uploads/scan.pdf'') = Inr [] \<and>
   (\<exists>res. process example_lib validation_config broken_pdf_pipeline (Fin 1000)
            (PathObj ''uploads/scan.pdf'') = Inr res \<and>
          success res \<and> error_message res = None \<and>
          map_option source_file (er_record res) = Some ''scan.pdf'' \<and>
          map_option total_amount (er_record res) = Some (Some (Fin 0)))"
proof -
  have t: "text_extract example_lib validation_config broken_pdf_pipeline q =
             Inl (Exn ''No /Root object! - Is this really a PDF?'')" for q
    by (simp add: text_extract_fails broken_pdf_pipeline_fields)
  have a: "process example_lib validation_config broken_pdf_pipeline (Fin 1000)
     (StrObj ''uploads/scan.pdf'') =
     Inr \<lparr>success = False, er_record = None, error_message = Some no_attribute_name,
          er_extraction_method = ''failed'', processing_time_ms = Fin 1000, warnings = []\<rparr> \<and>
   try_text_extraction example_lib validation_config broken_pdf_pipeline
     (StrObj ''uploads/scan.pdf'') = Inr ([], '''') \<and>
   try_layout_extraction broken_pdf_pipeline (StrObj ''uploads/scan.pdf'') = Inr []"
    using C6_process_never_raises [of example_lib validation_config broken_pdf_pipeline
        "Fin 1000" "StrObj ''uploads/scan.pdf''"] t
    by (simp add: broken_pdf_pipeline_fields)
  have b: "\<exists>res. process example_lib validation_config broken_pdf_pipeline (Fin 1000)
            (PathObj ''uploads/scan.pdf'') = Inr res \<and>
          success res \<and> error_message res = None \<and>
          map_option source_file (er_record res) = Some ''scan.pdf'' \<and>
          map_option total_amount (er_record res) = Some (Some (Fin 0))"
    using C6_process_never_raises [of example_lib validation_config broken_pdf_pipeline
        "Fin 1000" "PathObj ''uploads/scan.pdf''"] t
    by (auto simp: broken_pdf_pipeline_fields path_name_example empty_record_example)
  from a b t show ?thesis
    by simp
qed

text \<open>C6 as stated fails for a document that no strategy can read: the pipeline without OCR,
  given the path of a file that is no PDF, catches the exception of the text strategy and the
  exception of the layout strategy and returns \<^verbatim>\<open>success = True\<close> with a record in which every
  field is \<^verbatim>\<open>None\<close> and every amount is 0.0, not a result with \<^verbatim>\<open>success = False\<close> and an
  error message.\<close>

theorem C6_unreadable_document_counterexample:
  "text_extract example_lib validation_config broken_pdf_pipeline (PathObj ''uploads/scan.pdf'') =
     Inl (Exn ''No /Root object! - Is this really a PDF?'') \<and>
   layout_extract broken_pdf_pipeline (PathObj ''uploads/scan.pdf'') =
     Inl (Exn ''No /Root object! - Is this really a PDF?'') \<and>
   ocr_extractor broken_pdf_pipeline = None \<and>
   process example_lib validation_config broken_pdf_pipeline (Fin 1000)
     (PathObj ''uploads/scan.pdf'') =
     Inr \<lparr>success = True,
          er_record =
            Some \<lparr>tan = None, deductor_name = None, assessment_year = None,
                  financial_year = None, major_head = None, minor_head = None,
                  nature_of_payment = None, total_amount = Some (Fin 0),
                  amount_in_words = None, cin = None, bsr_code = None, challan_no = None,
                  date_of_deposit = None, tender_date = None, bank_name = None,
                  bank_ref_no = None, mode_of_payment = None,
                  tax_breakup = \<lparr>tax_a = Fin 0, tax_b = Fin 0, tax_c = Fin 0, tax_d = Fin 0,
                                  tax_e = Fin 0, tax_f = Fin 0\<rparr>,
                  source_file = ''scan.pdf'', row_confidence = 0, validation_flag = PENDING,
                  review_status = PENDING_REVIEW, notes_text = '''', field_confidences = [],
                  record_hash = Some ''e3b0c44298fc1c14''\<rparr>,
          error_message = None, er_extraction_method = ''text'',
          processing_time_ms = Fin 1000, warnings = []\<rparr>"
proof -
  have t: "text_extract example_lib validation_config broken_pdf_pipeline
             (PathObj ''uploads/scan.pdf'') =
             Inl (Exn ''No /Root object! - Is this really a PDF?'')"
    by (simp add: text_extract_fails broken_pdf_pipeline_fields)
  have tf: "try_text_extraction example_lib validation_config broken_pdf_pipeline
              (PathObj ''uploads/scan.pdf'') = Inr ([], '''')"
    using t by (rule try_extraction_degrades)
  have lf: "try_layout_extraction broken_pdf_pipeline (PathObj ''uploads/scan.pdf'') = Inr []"
    by (simp add: try_extraction_degrades broken_pdf_pipeline_fields)
  have "process example_lib validation_config broken_pdf_pipeline (Fin 1000)
     (PathObj ''uploads/scan.pdf'') =
     Inr \<lparr>success = True,
          er_record =
            Some \<lparr>tan = None, deductor_name = None, assessment_year = None,
                  financial_year = None, major_head = None, minor_head = None,
                  nature_of_payment = None, total_amount = Some (Fin 0),
                  amount_in_words = None, cin = None, bsr_code = None, challan_no = None,
                  date_of_deposit = None, tender_date = None, bank_name = None,
                  bank_ref_no = None, mode_of_payment = None,
                  tax_breakup = \<lparr>tax_a = Fin 0, tax_b = Fin 0, tax_c = Fin 0, tax_d = Fin 0,
                                  tax_e = Fin 0, tax_f = Fin 0\<rparr>,
                  source_file = ''scan.pdf'', row_confidence = 0, validation_flag = PENDING,
                  review_status = PENDING_REVIEW, notes_text = '''', field_confidences = [],
                  record_hash = Some ''e3b0c44298fc1c14''\<rparr>,
          error_message = None, er_extraction_method = ''text'',
          processing_time_ms = Fin 1000, warnings = []\<rparr>"
    by (simp add: process_def try_except_def process_body_def bind_def tf lf Let_def
          empty_map_values broken_pdf_pipeline_fields path_name_example empty_record_example)
  with t show ?thesis
    by (simp add: broken_pdf_pipeline_fields)
qed

end
